theory Spec2Isabelle
  imports Main
begin

section \<open>Fragments of the Python runtime the viewer relies on\<close>

text \<open>
  The viewer (\<^verbatim>\<open>src/main.py\<close>, class \<^verbatim>\<open>MarkdownViewer\<close>) is a single controller object
  whose methods mutate its own fields, call into a GUI toolkit and read or write files.
  The embedding keeps the fields in a record, passes the record through every method, and
  turns each exception of the source into a value of \<open>py_error\<close>.
\<close>

type_synonym path = string

datatype py_error =
    ValueError
  | KeyError string
  | IndexError
  | OSError string
  | NotModelled

fun error_text :: "py_error \<Rightarrow> string" where
  "error_text ValueError = ''ValueError''"
| "error_text (KeyError k) = k"
| "error_text IndexError = ''IndexError''"
| "error_text (OSError m) = m"
| "error_text NotModelled = ''NotModelled''"

subsection \<open>\<^verbatim>\<open>str.format\<close> with keyword arguments\<close>

text \<open>
  \<^verbatim>\<open>template.format(css=..., content=...)\<close> scans the template from left to right:
  \<^verbatim>\<open>{{\<close> and \<^verbatim>\<open>}}\<close> are escaped braces, \<^verbatim>\<open>{name}\<close> is replaced by the keyword
  argument of that name (KeyError when there is none, IndexError for the empty name, as no
  positional argument is passed), a brace left alone is a ValueError. The inserted value is
  copied as it is and never scanned again. Conversions and format specifications
  (\<^verbatim>\<open>!r\<close>, \<^verbatim>\<open>:>10\<close>, attribute and index access) do not occur in the viewer's template;
  a field name holding one of their characters yields \<open>NotModelled\<close>.
\<close>

definition then_append :: "string \<Rightarrow> py_error + string \<Rightarrow> py_error + string" where
  "then_append v r = (case r of Inl e \<Rightarrow> Inl e | Inr s \<Rightarrow> Inr (v @ s))"

fun py_format :: "(string \<times> string) list \<Rightarrow> string \<Rightarrow> py_error + string"
  and py_field :: "(string \<times> string) list \<Rightarrow> string \<Rightarrow> string \<Rightarrow> py_error + string" where
  "py_format kw [] = Inr []"
| "py_format kw (c # cs) =
     (if c = CHR ''{'' then
        (case cs of
           [] \<Rightarrow> Inl ValueError
         | d # ds \<Rightarrow> if d = CHR ''{'' then then_append [c] (py_format kw ds)
                    else py_field kw [] cs)
      else if c = CHR ''}'' then
        (case cs of
           [] \<Rightarrow> Inl ValueError
         | d # ds \<Rightarrow> if d = CHR ''}'' then then_append [c] (py_format kw ds)
                    else Inl ValueError)
      else then_append [c] (py_format kw cs))"
| "py_field kw name [] = Inl ValueError"
| "py_field kw name (c # cs) =
     (if c = CHR ''}'' then
        (if name = [] then Inl IndexError
         else case map_of kw name of
                None \<Rightarrow> Inl (KeyError name)
              | Some v \<Rightarrow> then_append v (py_format kw cs))
      else if c \<in> set ''{!:.[]'' then Inl NotModelled
      else py_field kw (name @ [c]) cs)"

subsection \<open>\<^verbatim>\<open>os.path\<close> on a POSIX system\<close>

definition is_sep :: "char \<Rightarrow> bool" where
  "is_sep c = (c = CHR ''/'')"

definition basename :: "path \<Rightarrow> path" where
  "basename p = rev (takeWhile (\<lambda>c. \<not> is_sep c) (rev p))"

definition dirname :: "path \<Rightarrow> path" where
  "dirname p =
     (let head = rev (dropWhile (\<lambda>c. \<not> is_sep c) (rev p))
      in if head \<noteq> [] \<and> \<not> list_all is_sep head
         then rev (dropWhile is_sep (rev head)) else head)"

subsection \<open>Text files\<close>

text \<open>
  A file holds the text written to it: \<^verbatim>\<open>open(p, 'w', encoding='utf-8')\<close> followed by
  \<^verbatim>\<open>write\<close> stores the text under \<open>p\<close>, \<^verbatim>\<open>open(p, 'r', encoding='utf-8')\<close> followed by
  \<^verbatim>\<open>read\<close> returns what is stored. Both raise when the path cannot be opened (\<open>locked\<close>),
  reading also when no file is there. The UTF-8 and newline layers between text and bytes
  are not part of the model.
\<close>

record world =
  files :: "path \<rightharpoonup> string"
  locked :: "path \<Rightarrow> bool"

definition read_text :: "world \<Rightarrow> path \<Rightarrow> py_error + string" where
  "read_text w p =
     (if locked w p then Inl (OSError ''Permission denied'')
      else case files w p of
             None \<Rightarrow> Inl (OSError ''No such file or directory'')
           | Some t \<Rightarrow> Inr t)"

definition write_text :: "world \<Rightarrow> path \<Rightarrow> string \<Rightarrow> py_error + world" where
  "write_text w p t =
     (if locked w p then Inl (OSError ''Permission denied'')
      else Inr (w\<lparr>files := (files w)(p \<mapsto> t)\<rparr>))"

section \<open>The libraries behind the viewer\<close>

text \<open>
  \<^verbatim>\<open>markdown2.markdown(text, extras=...)\<close>, Pygments'
  \<^verbatim>\<open>HtmlFormatter(style=s).get_style_defs(selector)\<close>, the working directory and the
  toolkit's default font size are not code of this repository: they are parameters.
\<close>

record platform =
  markdown :: "string list \<Rightarrow> string \<Rightarrow> string"
  get_style_defs :: "string \<Rightarrow> string \<Rightarrow> string"
  getcwd :: path
  default_point_size :: int

section \<open>The state of \<^verbatim>\<open>MarkdownViewer\<close>\<close>

text \<open>
  What the viewer does to the toolkit without changing a field of its own (status bar
  messages, message boxes, the input dialog, scripts sent to the page, print jobs, calls of
  the style generator, calls of \<^verbatim>\<open>update_preview\<close>) is appended to \<open>trace\<close>, oldest first.
\<close>

datatype ui_event =
    UpdatePreview nat
  | GetStyleDefs string string
  | StatusMessage string
  | ClearMessage
  | Critical string string
  | Warning string string
  | Information string string
  | InputDialog string string
  | Placeholder string
  | FontSizeScript int
  | PrintToPdf path
  | PdfPrintingFinished path bool
  | Uncaught py_error

record viewer =
  current_file_path :: "path option"
  api_key_set :: bool
  gemini_api_key :: "string option"
  editor_text :: string
  editor_style :: string
  editor_point_size :: int
  ai_input_text :: string
  ai_input_style :: string
  ai_input_point_size :: int
  ai_output_text :: string
  ai_output_style :: string
  ai_output_point_size :: int
  current_tab :: nat
  dark_mode_checked :: bool
  pygments_css :: string
  base_css :: string
  dark_mode_css :: string
  pygments_dark_css :: string
  current_css :: string
  html_template :: string
  window_title :: string
  preview_html :: string
  preview_base_url :: path
  update_timer :: "nat option"
  pending_pdf :: "path list"
  clock :: nat
  trace :: "ui_event list"

definition emit :: "ui_event \<Rightarrow> viewer \<Rightarrow> viewer" where
  "emit e st = st\<lparr>trace := trace st @ [e]\<rparr>"

definition status_message :: "string \<Rightarrow> viewer \<Rightarrow> viewer" where
  "status_message m st = emit (StatusMessage m) st"

subsection \<open>\<^verbatim>\<open>load_styles\<close>\<close>

definition base_css_text :: string where
  \<open>base_css_text = ''\<newline>            body { font-family: sans-serif; line-height: 1.6; padding: 20px; }\<newline>            h1, h2, h3, h4, h5, h6 { line-height: 1.2; }\<newline>            table { border-collapse: collapse; width: 100%; }\<newline>            th, td { border: 1px solid #ddd; padding: 8px; }\<newline>            th { background-color: #f2f2f2; }\<newline>            blockquote { border-left: 4px solid #ccc; padding-left: 10px; color: #666; }\<newline>            code { background-color: #f9f9f9; padding: 2px 4px; border-radius: 4px; }\<newline>            .codehilite { background: #f8f8f8; border: 1px solid #ccc; padding: 10px; border-radius: 4px; overflow-x: auto;}\<newline>            img { max-width: 100%; height: auto; }\<newline>        ''\<close>

definition dark_mode_css_text :: string where
  \<open>dark_mode_css_text = ''\<newline>            body { background-color: #2b2b2b; color: #dcdcdc; }\<newline>            h1, h2, h3, h4, h5, h6 { color: #ffffff; }\<newline>            table { border-color: #555; }\<newline>            th, td { border-color: #555; }\<newline>            th { background-color: #3a3a3a; }\<newline>            blockquote { border-left-color: #555; color: #aaa; }\<newline>            code { background-color: #3c3c3c; color: #dcdcdc; }\<newline>            a { color: #87ceeb; }\<newline>        ''\<close>

definition html_template_text :: string where
  \<open>html_template_text = ''\<newline>        <!DOCTYPE html>\<newline>        <html>\<newline>        <head>\<newline>            <meta charset="utf-g">\<newline>            <style>\<newline>                {css}\<newline>            </style>\<newline>        </head>\<newline>        <body>\<newline>            {content}\<newline>        </body>\<newline>        </html>\<newline>        ''\<close>

text \<open>The three stretches of the template around its two slots.\<close>

definition template_head :: string where
  \<open>template_head = ''\<newline>        <!DOCTYPE html>\<newline>        <html>\<newline>        <head>\<newline>            <meta charset="utf-g">\<newline>            <style>\<newline>                ''\<close>

definition template_mid :: string where
  \<open>template_mid = ''\<newline>            </style>\<newline>        </head>\<newline>        <body>\<newline>            ''\<close>

definition template_tail :: string where
  \<open>template_tail = ''\<newline>        </body>\<newline>        </html>\<newline>        ''\<close>

definition load_styles :: "platform \<Rightarrow> viewer \<Rightarrow> viewer" where
  "load_styles P st =
     (let st1 = emit (GetStyleDefs ''default'' ''.codehilite'')
                  (st\<lparr>pygments_css := get_style_defs P ''default'' ''.codehilite''\<rparr>);
          st2 = st1\<lparr>base_css := base_css_text\<rparr>;
          st3 = st2\<lparr>dark_mode_css := dark_mode_css_text\<rparr>;
          st4 = emit (GetStyleDefs ''monokai'' ''.codehilite'')
                  (st3\<lparr>pygments_dark_css := get_style_defs P ''monokai'' ''.codehilite''\<rparr>);
          st5 = st4\<lparr>current_css := base_css st4 @ pygments_css st4\<rparr>
      in st5\<lparr>html_template := html_template_text\<rparr>)"

subsection \<open>The debounce timer and \<^verbatim>\<open>update_preview\<close>\<close>

text \<open>
  \<open>update_timer\<close> is the single-shot \<^verbatim>\<open>QTimer\<close>: \<open>None\<close> when it is not running,
  \<open>Some d\<close> when it will time out at clock value \<open>d\<close> (milliseconds).
\<close>

definition timer_stop :: "viewer \<Rightarrow> viewer" where
  "timer_stop st = st\<lparr>update_timer := None\<rparr>"

definition timer_start :: "nat \<Rightarrow> viewer \<Rightarrow> viewer" where
  "timer_start ms st = st\<lparr>update_timer := Some (clock st + ms)\<rparr>"

definition on_text_changed :: "viewer \<Rightarrow> viewer" where
  "on_text_changed st = timer_start 300 (timer_stop st)"

definition preview_extras :: "string list" where
  "preview_extras = [''fenced-code-blocks'', ''tables'', ''highlightjs-classes'', ''code-friendly'']"

definition export_extras :: "string list" where
  "export_extras = [''fenced-code-blocks'', ''tables'']"

definition truthy :: "string option \<Rightarrow> bool" where
  "truthy v = (case v of None \<Rightarrow> False | Some s \<Rightarrow> s \<noteq> [])"

definition base_url :: "platform \<Rightarrow> viewer \<Rightarrow> path" where
  "base_url P st =
     (if truthy (current_file_path st)
      then dirname (the (current_file_path st)) @ ''/''
      else getcwd P @ ''/'')"

definition update_preview :: "platform \<Rightarrow> string option \<Rightarrow> viewer \<Rightarrow> viewer" where
  "update_preview P html_content st =
     (let st1 = emit (UpdatePreview (clock st)) st;
          content = (case html_content of
                       None \<Rightarrow> markdown P preview_extras (editor_text st1)
                     | Some h \<Rightarrow> h)
      in case py_format [(''css'', current_css st1), (''content'', content)] (html_template st1) of
           Inl e \<Rightarrow> emit (Uncaught e) st1
         | Inr full_html \<Rightarrow>
             st1\<lparr>preview_html := full_html, preview_base_url := base_url P st1\<rparr>)"

subsection \<open>File operations\<close>

definition window_title_for :: "path \<Rightarrow> string" where
  "window_title_for p = ''Python Markdown Viewer - '' @ basename p"

text \<open>
  The first argument of each operation is what the file dialog returns: the chosen path,
  or the empty string when the user cancels. \<^verbatim>\<open>setPlainText\<close> emits \<^verbatim>\<open>textChanged\<close>,
  which is connected to \<^verbatim>\<open>on_text_changed\<close>.
\<close>

definition open_file :: "path \<Rightarrow> viewer \<times> world \<Rightarrow> viewer \<times> world" where
  "open_file file_path s =
     (case s of (st, w) \<Rightarrow>
        if file_path \<noteq> [] then
          (case read_text w file_path of
             Inr t \<Rightarrow>
               (let st1 = on_text_changed (st\<lparr>editor_text := t\<rparr>);
                    st2 = st1\<lparr>current_file_path := Some file_path\<rparr>;
                    st3 = st2\<lparr>window_title := window_title_for file_path\<rparr>
                in (status_message (''Opened '' @ file_path) st3, w))
           | Inl e \<Rightarrow>
               (emit (Critical ''Error'' (''Could not open file: '' @ error_text e)) st, w))
        else (st, w))"

text \<open>
  \<^verbatim>\<open>save_file\<close> and \<^verbatim>\<open>save_file_as\<close> call each other. The dialog of \<^verbatim>\<open>save_file_as\<close> is
  shown at most once: it sets \<open>current_file_path\<close> to a non-empty path before it calls
  \<^verbatim>\<open>save_file\<close>, which then takes its first branch.
\<close>

function save_file :: "path \<Rightarrow> viewer \<times> world \<Rightarrow> viewer \<times> world"
  and save_file_as :: "path \<Rightarrow> viewer \<times> world \<Rightarrow> viewer \<times> world" where
  "save_file dlg (st, w) =
     (if truthy (current_file_path st) then
        (case write_text w (the (current_file_path st)) (editor_text st) of
           Inr w' \<Rightarrow> (status_message (''Saved to '' @ the (current_file_path st)) st, w')
         | Inl e \<Rightarrow>
             (emit (Critical ''Error'' (''Could not save file: '' @ error_text e)) st, w))
      else save_file_as dlg (st, w))"
| "save_file_as file_path (st, w) =
     (if file_path \<noteq> [] then
        (let st1 = st\<lparr>current_file_path := Some file_path\<rparr>;
             st2 = st1\<lparr>window_title := window_title_for file_path\<rparr>
         in save_file file_path (st2, w))
      else (st, w))"
  by pat_completeness auto
termination
  by (relation "measure (\<lambda>x. case x of
          Inl (d, st, w) \<Rightarrow> if truthy (current_file_path st) then 0 else 2
        | Inr (d, st, w) \<Rightarrow> Suc 0)")
     (auto simp: truthy_def)

declare save_file.simps [simp del] save_file_as.simps [simp del]

definition export_to_html :: "platform \<Rightarrow> path \<Rightarrow> viewer \<times> world \<Rightarrow> viewer \<times> world" where
  "export_to_html P file_path s =
     (case s of (st, w) \<Rightarrow>
        if file_path \<noteq> [] then
          (let markdown_text = editor_text st;
               html_content = markdown P export_extras markdown_text
           in case py_format [(''css'', current_css st), (''content'', html_content)]
                     (html_template st) of
                Inl e \<Rightarrow>
                  (emit (Critical ''Error'' (''Could not export HTML: '' @ error_text e)) st, w)
              | Inr full_html \<Rightarrow>
                  (case write_text w file_path full_html of
                     Inl e \<Rightarrow>
                       (emit (Critical ''Error'' (''Could not export HTML: '' @ error_text e)) st,
                        w)
                   | Inr w' \<Rightarrow> (status_message (''Exported to '' @ file_path) st, w')))
        else (st, w))"

text \<open>
  \<^verbatim>\<open>printToPdf(file_path)\<close> starts a print job and returns; the page reports the job's
  result later through its \<^verbatim>\<open>pdfPrintingFinished\<close> signal, to which the viewer connects
  nothing. \<open>raises\<close> says whether the call itself raises.
\<close>

definition handle_pdf_creation :: "path \<Rightarrow> bool \<Rightarrow> viewer \<Rightarrow> viewer" where
  "handle_pdf_creation file_path success st =
     (if success then
        emit (Information ''Success'' (''PDF successfully exported to '' @ file_path))
          (status_message (''Exported to '' @ file_path) st)
      else
        emit (Critical ''Error'' ''Could not export PDF.'')
          (status_message ''PDF export failed.'' st))"

definition print_to_pdf :: "path \<Rightarrow> viewer \<Rightarrow> viewer" where
  "print_to_pdf file_path st =
     emit (PrintToPdf file_path) (st\<lparr>pending_pdf := pending_pdf st @ [file_path]\<rparr>)"

definition export_to_pdf :: "path \<Rightarrow> bool \<Rightarrow> viewer \<Rightarrow> viewer" where
  "export_to_pdf file_path raises st =
     (if file_path = [] then st
      else if raises then handle_pdf_creation file_path False st
      else handle_pdf_creation file_path True (print_to_pdf file_path st))"

definition pdf_printing_finished :: "bool \<Rightarrow> viewer \<Rightarrow> viewer" where
  "pdf_printing_finished ok st =
     (case pending_pdf st of
        [] \<Rightarrow> st
      | p # ps \<Rightarrow> emit (PdfPrintingFinished p ok) (st\<lparr>pending_pdf := ps\<rparr>))"

subsection \<open>View operations\<close>

definition toggle_dark_mode :: "platform \<Rightarrow> viewer \<Rightarrow> viewer" where
  \<open>toggle_dark_mode P st =
     (let st1 =
            (if dark_mode_checked st
             then st\<lparr>current_css := base_css st @ dark_mode_css st @ pygments_dark_css st\<rparr>
             else st\<lparr>current_css := base_css st @ pygments_css st\<rparr>);
          editor_style' =
            (if dark_mode_checked st
             then ''font-family: 'Courier New'; font-size: 14px; color: #dcdcdc; background-color: #2b2b2b;''
             else ''font-family: 'Courier New'; font-size: 14px; color: #333; background-color: #fdfdfd;'');
          ai_style =
            (if dark_mode_checked st
             then ''color: #dcdcdc; background-color: #2b2b2b;''
             else ''color: #333; background-color: #fdfdfd;'');
          st2 = st1\<lparr>editor_style := editor_style'\<rparr>;
          st3 = st2\<lparr>ai_input_style := ai_style\<rparr>;
          st4 = st3\<lparr>ai_output_style := ai_style\<rparr>
      in update_preview P None st4)\<close>

text \<open>
  \<open>delta // 2\<close> is Python's floor division, which is \<open>div\<close> on \<open>int\<close>. The script sent
  to the page adds \<open>delta\<close> pixels to the font size of the preview's body.
\<close>

definition adjust_font_size :: "int \<Rightarrow> viewer \<Rightarrow> viewer" where
  "adjust_font_size delta st =
     (let st1 = emit (FontSizeScript delta) st;
          new_size = editor_point_size st1 + delta div 2
      in if new_size > 4 then
           st1\<lparr>editor_point_size := new_size,
               ai_input_point_size := new_size,
               ai_output_point_size := new_size\<rparr>
         else st1)"

subsection \<open>The AI assistant\<close>

text \<open>
  \<open>dlg\<close> is what the input dialog returns (the text and whether it was accepted),
  \<open>check\<close> what \<^verbatim>\<open>genai.configure\<close> followed by \<^verbatim>\<open>genai.get_model\<close> does with a key:
  \<open>None\<close> when neither raises, the exception's text otherwise.
\<close>

definition get_api_key ::
  "string \<times> bool \<Rightarrow> (string \<Rightarrow> string option) \<Rightarrow> viewer \<Rightarrow> bool \<times> viewer" where
  \<open>get_api_key dlg check st =
     (if api_key_set st \<and> truthy (gemini_api_key st) then (True, st)
      else
        (let st0 = emit (InputDialog ''Gemini API Key''
                           ''Please enter your Google Gemini API key:'') st;
             text = fst dlg; ok = snd dlg
         in if ok \<and> text \<noteq> [] then
              (let st1 = st0\<lparr>gemini_api_key := Some text\<rparr>;
                   st2 = st1\<lparr>api_key_set := True\<rparr>
               in case check (the (gemini_api_key st2)) of
                    None \<Rightarrow> (True, st2)
                  | Some e \<Rightarrow>
                      (let st3 = emit (Warning ''API Key Error''
                                   (''The API key seems to be invalid.\<newline>Please check it and try again.\<newline>Error: '' @ e)) st2;
                           st4 = st3\<lparr>api_key_set := False\<rparr>;
                           st5 = st4\<lparr>gemini_api_key := None\<rparr>
                       in (False, st5)))
            else (False, st0)))\<close>

definition prepare_ai_tab :: "string \<Rightarrow> viewer \<Rightarrow> viewer" where
  \<open>prepare_ai_tab selected_text st =
     (if selected_text = [] then
        emit (Information ''AI Tool''
                ''Please select some text in the 'Editor' tab first.'') st
      else st\<lparr>ai_input_text := selected_text, ai_output_text := [], current_tab := 2\<rparr>)\<close>

definition prompt_head :: string where
  \<open>prompt_head = ''\<newline>            Please act as a helpful assistant. Analyze the following text or code snippet and provide a concise explanation or summary.\<newline>            If it's code, explain what it does. If it's text, summarize its main points.\<newline>\<newline>            Content to analyze:\<newline>            ---\<newline>            ''\<close>

definition prompt_tail :: string where
  \<open>prompt_tail = ''\<newline>            ---\<newline>            ''\<close>

definition run_ai_generation ::
  "string \<times> bool \<Rightarrow> (string \<Rightarrow> string option) \<Rightarrow> (string \<Rightarrow> string + string) \<Rightarrow>
   viewer \<Rightarrow> viewer" where
  "run_ai_generation dlg check generate st =
     (let content_to_analyze = ai_input_text st
      in if content_to_analyze = [] then
           emit (Information ''AI Tool''
                   ''There is no content to analyze. Please send some text from the editor first.'')
             st
         else
           (case get_api_key dlg check st of
              (False, st1) \<Rightarrow> st1
            | (True, st1) \<Rightarrow>
                (let st2 = status_message ''Sending request to Gemini AI...'' st1;
                     st3 = emit (Placeholder ''Generating response...'') st2
                 in case generate (prompt_head @ content_to_analyze @ prompt_tail) of
                      Inr response_text \<Rightarrow>
                        (emit ClearMessage st3)\<lparr>ai_output_text := response_text\<rparr>
                    | Inl e \<Rightarrow>
                        emit (Critical ''AI Error''
                                (''An error occurred while contacting the AI service: '' @ e))
                          (emit (Placeholder ''An error occurred.'') (emit ClearMessage st3)))))"

subsection \<open>\<^verbatim>\<open>__init__\<close>\<close>

text \<open>The object before \<^verbatim>\<open>__init__\<close> has assigned anything.\<close>

definition blank_viewer :: viewer where
  "blank_viewer =
     \<lparr>current_file_path = None, api_key_set = False, gemini_api_key = None,
      editor_text = [], editor_style = [], editor_point_size = 0,
      ai_input_text = [], ai_input_style = [], ai_input_point_size = 0,
      ai_output_text = [], ai_output_style = [], ai_output_point_size = 0,
      current_tab = 0, dark_mode_checked = False,
      pygments_css = [], base_css = [], dark_mode_css = [], pygments_dark_css = [],
      current_css = [], html_template = [], window_title = [],
      preview_html = [], preview_base_url = [],
      update_timer = None, pending_pdf = [], clock = 0, trace = []\<rparr>"

definition setup_ui :: "platform \<Rightarrow> viewer \<Rightarrow> viewer" where
  \<open>setup_ui P st =
     st\<lparr>editor_text := [],
        editor_style := ''font-family: 'Courier New'; font-size: 14px; color: #333; background-color: #fdfdfd;'',
        editor_point_size := default_point_size P,
        ai_input_text := [], ai_input_point_size := default_point_size P,
        ai_output_text := [], ai_output_point_size := default_point_size P,
        current_tab := 0\<rparr>\<close>

definition viewer_init :: "platform \<Rightarrow> viewer" where
  "viewer_init P =
     (let st1 = blank_viewer\<lparr>window_title := ''Python Markdown Viewer''\<rparr>;
          st2 = st1\<lparr>current_file_path := None, api_key_set := False, gemini_api_key := None\<rparr>;
          st3 = setup_ui P st2;
          st4 = load_styles P st3;
          st5 = st4\<lparr>update_timer := None\<rparr>
      in update_preview P None st5)"

section \<open>The event loop\<close>

text \<open>
  One \<open>action\<close> is one thing the single UI thread handles: a user action with the answers
  the dialogs and services give during it, or the passing of time. When the clock reaches the
  timer's deadline, the timer stops (it is single-shot) and its \<^verbatim>\<open>timeout\<close> signal calls
  \<^verbatim>\<open>update_preview\<close> with no argument.
\<close>

datatype action =
    Edit string
  | Elapse nat
  | OpenFile path
  | SaveFile path
  | SaveFileAs path
  | ExportHtml path
  | ExportPdf path bool
  | PdfFinished bool
  | ToggleDarkMode
  | IncreaseFont
  | DecreaseFont
  | SendSelectionToAi string
  | RunAi "string \<times> bool" "string \<Rightarrow> string option" "string \<Rightarrow> string + string"

definition elapse :: "platform \<Rightarrow> nat \<Rightarrow> viewer \<Rightarrow> viewer" where
  "elapse P d st =
     (case update_timer st of
        None \<Rightarrow> st\<lparr>clock := clock st + d\<rparr>
      | Some deadline \<Rightarrow>
          if deadline \<le> clock st + d then
            (update_preview P None
               ((timer_stop st)\<lparr>clock := max (clock st) deadline\<rparr>))\<lparr>clock := clock st + d\<rparr>
          else st\<lparr>clock := clock st + d\<rparr>)"

fun step :: "platform \<Rightarrow> action \<Rightarrow> viewer \<times> world \<Rightarrow> viewer \<times> world" where
  "step P (Edit t) (st, w) = (on_text_changed (st\<lparr>editor_text := t\<rparr>), w)"
| "step P (Elapse d) (st, w) = (elapse P d st, w)"
| "step P (OpenFile p) (st, w) = open_file p (st, w)"
| "step P (SaveFile p) (st, w) = save_file p (st, w)"
| "step P (SaveFileAs p) (st, w) = save_file_as p (st, w)"
| "step P (ExportHtml p) (st, w) = export_to_html P p (st, w)"
| "step P (ExportPdf p raises) (st, w) = (export_to_pdf p raises st, w)"
| "step P (PdfFinished ok) (st, w) = (pdf_printing_finished ok st, w)"
| "step P ToggleDarkMode (st, w) =
     (toggle_dark_mode P (st\<lparr>dark_mode_checked := \<not> dark_mode_checked st\<rparr>), w)"
| "step P IncreaseFont (st, w) = (adjust_font_size 2 st, w)"
| "step P DecreaseFont (st, w) = (adjust_font_size (- 2) st, w)"
| "step P (SendSelectionToAi sel) (st, w) = (prepare_ai_tab sel st, w)"
| "step P (RunAi dlg check generate) (st, w) = (run_ai_generation dlg check generate st, w)"

fun run :: "platform \<Rightarrow> action list \<Rightarrow> viewer \<times> world \<Rightarrow> viewer \<times> world" where
  "run P [] s = s"
| "run P (a # as) s = run P as (step P a s)"

text \<open>The state of the viewer after a session: start-up, then the actions in order.\<close>

definition session :: "platform \<Rightarrow> world \<Rightarrow> action list \<Rightarrow> viewer" where
  "session P w as = fst (run P as (viewer_init P, w))"

section \<open>Notions the statements use\<close>

subsection \<open>The preview as a function of text and theme\<close>

text \<open>
  The document the template describes, with \<open>css\<close> in its style slot and \<open>content\<close> in its
  body; the CSS bundle of each theme; and the page of a text under a theme. These follow the
  specification's description of the pipeline; the lemmas below relate them to the code.
\<close>

definition wrap_html :: "string \<Rightarrow> string \<Rightarrow> string" where
  "wrap_html css content = template_head @ css @ template_mid @ content @ template_tail"

definition theme_css :: "platform \<Rightarrow> bool \<Rightarrow> string" where
  "theme_css P dark =
     (if dark
      then base_css_text @ dark_mode_css_text @ get_style_defs P ''monokai'' ''.codehilite''
      else base_css_text @ get_style_defs P ''default'' ''.codehilite'')"

definition render_html :: "platform \<Rightarrow> string \<Rightarrow> bool \<Rightarrow> string" where
  "render_html P text dark = wrap_html (theme_css P dark) (markdown P preview_extras text)"

subsection \<open>The cached style fragments\<close>

fun is_style_generation :: "ui_event \<Rightarrow> bool" where
  "is_style_generation (GetStyleDefs style selector) = True"
| "is_style_generation e = False"

definition style_generations :: "viewer \<Rightarrow> ui_event list" where
  "style_generations st = filter is_style_generation (trace st)"

definition cached_styles :: "viewer \<Rightarrow> string \<times> string \<times> string \<times> string \<times> string" where
  "cached_styles st =
     (pygments_css st, pygments_dark_css st, base_css st, dark_mode_css st, html_template st)"

definition styles_loaded :: "platform \<Rightarrow> viewer \<Rightarrow> bool" where
  "styles_loaded P st =
     (cached_styles st =
        (get_style_defs P ''default'' ''.codehilite'',
         get_style_defs P ''monokai'' ''.codehilite'',
         base_css_text, dark_mode_css_text, html_template_text) \<and>
      current_css st = theme_css P (dark_mode_checked st))"

text \<open>Everything of the state that has to do with styles.\<close>

definition style_view ::
  "viewer \<Rightarrow>
   (string \<times> string \<times> string \<times> string \<times> string) \<times> string \<times> bool \<times> ui_event list" where
  "style_view st =
     (cached_styles st, current_css st, dark_mode_checked st, style_generations st)"

subsection \<open>Font sizes\<close>

definition sizes_above_4 :: "viewer \<Rightarrow> bool" where
  "sizes_above_4 st =
     (4 < editor_point_size st \<and> 4 < ai_input_point_size st \<and> 4 < ai_output_point_size st)"

subsection \<open>Bursts of edits\<close>

text \<open>
  The calls of \<^verbatim>\<open>update_preview\<close> so far, oldest first, each with the clock value at which
  it ran. A list of edits, each with the time that passes after it, as the actions of the
  event loop; and the clock values at which the edits happen when the first one happens at
  \<open>now\<close>.
\<close>

fun is_render :: "ui_event \<Rightarrow> bool" where
  "is_render (UpdatePreview t) = True"
| "is_render e = False"

definition render_calls :: "viewer \<Rightarrow> ui_event list" where
  "render_calls st = filter is_render (trace st)"

fun typing :: "(string \<times> nat) list \<Rightarrow> action list" where
  "typing [] = []"
| "typing ((text, gap) # rest) = Edit text # Elapse gap # typing rest"

fun edit_times :: "nat \<Rightarrow> (string \<times> nat) list \<Rightarrow> nat list" where
  "edit_times now [] = []"
| "edit_times now ((text, gap) # rest) = now # edit_times (now + gap) rest"

subsection \<open>The states of the AI bridge\<close>

fun is_input_dialog :: "ui_event \<Rightarrow> bool" where
  "is_input_dialog (InputDialog title label) = True"
| "is_input_dialog e = False"

text \<open>How many times the key dialog has been shown.\<close>

definition prompts :: "viewer \<Rightarrow> nat" where
  "prompts st = length (filter is_input_dialog (trace st))"

definition no_credential :: "viewer \<Rightarrow> bool" where
  "no_credential st = (api_key_set st = False \<and> gemini_api_key st = None)"

definition key_cached :: "string \<Rightarrow> viewer \<Rightarrow> bool" where
  "key_cached k st = (api_key_set st \<and> gemini_api_key st = Some k \<and> k \<noteq> [])"

text \<open>
  A series of calls of \<^verbatim>\<open>get_api_key\<close>, each with what the dialog returns and what the
  service says to a key; and when such a call cannot end with a valid key.
\<close>

fun attempts ::
  "((string \<times> bool) \<times> (string \<Rightarrow> string option)) list \<Rightarrow> viewer \<Rightarrow> viewer" where
  "attempts [] st = st"
| "attempts ((dlg, check) # rest) st = attempts rest (snd (get_api_key dlg check st))"

definition rejected :: "(string \<times> bool) \<times> (string \<Rightarrow> string option) \<Rightarrow> bool" where
  "rejected a = (case a of ((text, ok), check) \<Rightarrow> \<not> (ok \<and> text \<noteq> [] \<and> check text = None))"

subsection \<open>A sample platform\<close>

text \<open>
  A platform to run the model on. Its converter stands in for markdown2 and does one thing
  that markdown2 documents for the extra \<^verbatim>\<open>code-friendly\<close>: without the extra, a pair of
  underscores marks emphasis; with it, underscores are left alone.
\<close>

fun underscore_emphasis :: "bool \<Rightarrow> string \<Rightarrow> string" where
  "underscore_emphasis opened [] = []"
| "underscore_emphasis opened (c # cs) =
     (if c = CHR ''_''
      then (if opened then ''</em>'' else ''<em>'') @ underscore_emphasis (\<not> opened) cs
      else c # underscore_emphasis opened cs)"

definition sample_markdown :: "string list \<Rightarrow> string \<Rightarrow> string" where
  "sample_markdown extras text =
     ''<p>'' @ (if ''code-friendly'' \<in> set extras then text
                else underscore_emphasis False text) @ ''</p>\<newline>''"

definition sample_platform :: platform where
  "sample_platform =
     \<lparr>markdown = sample_markdown,
      get_style_defs = (\<lambda>style selector. selector @ '' .'' @ style),
      getcwd = ''/home/user'',
      default_point_size = 10\<rparr>"

text \<open>A service that accepts one key.\<close>

definition sample_check :: "string \<Rightarrow> string option" where
  "sample_check k = (if k = ''good-key'' then None else Some ''API key not valid'')"

definition sample_world :: world where
  "sample_world =
     \<lparr>files = [''/home/user/notes.md'' \<mapsto> ''# Notes''],
      locked = (\<lambda>p. p = ''/readonly/notes.md'')\<rparr>"

section \<open>The template and the style fields\<close>

lemma then_append_Inr [simp]: "then_append v (Inr s) = Inr (v @ s)"
  by (simp add: then_append_def)

text \<open>
  Formatting the viewer's template never fails and puts the two values, whatever braces
  they hold, between the three stretches of the template.
\<close>

lemma format_template:
  "py_format [(''css'', c), (''content'', h)] html_template_text = Inr (wrap_html c h)"
  by (simp add: html_template_text_def wrap_html_def template_head_def template_mid_def
      template_tail_def)

lemma wrap_html_inject: "wrap_html c h = wrap_html c h' \<longleftrightarrow> h = h'"
  by (simp add: wrap_html_def)

lemmas style_view_defs = style_view_def cached_styles_def style_generations_def

lemma style_view_update_preview: "style_view (update_preview P h st) = style_view st"
  by (simp add: update_preview_def Let_def style_view_defs emit_def split: sum.splits)

lemma style_view_on_text_changed: "style_view (on_text_changed st) = style_view st"
  by (simp add: on_text_changed_def timer_start_def timer_stop_def style_view_defs)

lemma style_view_elapse: "style_view (elapse P d st) = style_view st"
  by (simp add: elapse_def Let_def style_view_defs emit_def update_preview_def timer_stop_def
      split: sum.splits option.splits)

lemma style_view_open_file: "style_view (fst (open_file p (st, w))) = style_view st"
  by (simp add: open_file_def Let_def style_view_defs emit_def status_message_def
      on_text_changed_def timer_start_def timer_stop_def split: sum.splits)

lemma save_file_as_unfold:
  "save_file_as p (st, w) =
     (if p \<noteq> [] then
        (case write_text w p (editor_text st) of
           Inr w' \<Rightarrow>
             (status_message (''Saved to '' @ p)
                (st\<lparr>current_file_path := Some p, window_title := window_title_for p\<rparr>), w')
         | Inl e \<Rightarrow>
             (emit (Critical ''Error'' (''Could not save file: '' @ error_text e))
                (st\<lparr>current_file_path := Some p, window_title := window_title_for p\<rparr>), w))
      else (st, w))"
  by (simp add: save_file_as.simps save_file.simps truthy_def Let_def split: sum.splits)

lemma style_view_save_file_as: "style_view (fst (save_file_as p (st, w))) = style_view st"
  by (simp add: save_file_as_unfold style_view_defs emit_def status_message_def
      split: sum.splits)

lemma style_view_save_file: "style_view (fst (save_file p (st, w))) = style_view st"
  by (simp add: save_file.simps style_view_save_file_as)
     (simp add: style_view_defs emit_def status_message_def split: sum.splits)

lemma style_view_export_to_html: "style_view (fst (export_to_html P p (st, w))) = style_view st"
  by (simp add: export_to_html_def Let_def style_view_defs emit_def status_message_def
      split: sum.splits)

lemma style_view_export_to_pdf: "style_view (export_to_pdf p r st) = style_view st"
  by (simp add: export_to_pdf_def handle_pdf_creation_def print_to_pdf_def style_view_defs
      emit_def status_message_def)

lemma style_view_pdf_printing_finished:
  "style_view (pdf_printing_finished ok st) = style_view st"
  by (simp add: pdf_printing_finished_def style_view_defs emit_def split: list.splits)

lemma style_view_adjust_font_size: "style_view (adjust_font_size d st) = style_view st"
  by (simp add: adjust_font_size_def Let_def style_view_defs emit_def)

lemma style_view_prepare_ai_tab: "style_view (prepare_ai_tab sel st) = style_view st"
  by (simp add: prepare_ai_tab_def style_view_defs emit_def)

lemma style_view_get_api_key: "style_view (snd (get_api_key dlg check st)) = style_view st"
  by (simp add: get_api_key_def Let_def style_view_defs emit_def split: option.splits)

lemma style_view_run_ai_generation:
  "style_view (run_ai_generation dlg check g st) = style_view st"
proof -
  have "style_view (snd (get_api_key dlg check st)) = style_view st"
    by (rule style_view_get_api_key)
  then show ?thesis
    by (cases "get_api_key dlg check st")
       (simp add: run_ai_generation_def Let_def style_view_defs emit_def status_message_def
          split: sum.splits bool.splits)
qed

lemma style_view_step:
  "a \<noteq> ToggleDarkMode \<Longrightarrow> style_view (fst (step P a (st, w))) = style_view st"
  by (cases a)
     (simp_all add: style_view_on_text_changed style_view_elapse style_view_open_file
        style_view_save_file style_view_save_file_as style_view_export_to_html
        style_view_export_to_pdf style_view_pdf_printing_finished style_view_adjust_font_size
        style_view_prepare_ai_tab style_view_run_ai_generation,
      simp add: style_view_defs)

lemma toggle_dark_mode_current_css:
  "current_css (toggle_dark_mode P st) =
     (if dark_mode_checked st then base_css st @ dark_mode_css st @ pygments_dark_css st
      else base_css st @ pygments_css st)"
proof -
  have "style_view (update_preview P None s) = style_view s" for s
    by (rule style_view_update_preview)
  then have "current_css (update_preview P None s) = current_css s" for s
    by (simp add: style_view_def)
  then show ?thesis
    by (simp add: toggle_dark_mode_def Let_def)
qed

lemma toggle_dark_mode_frame:
  "cached_styles (toggle_dark_mode P st) = cached_styles st \<and>
   style_generations (toggle_dark_mode P st) = style_generations st \<and>
   dark_mode_checked (toggle_dark_mode P st) = dark_mode_checked st"
proof -
  have "style_view (update_preview P None s) = style_view s" for s
    by (rule style_view_update_preview)
  then have "cached_styles (update_preview P None s) = cached_styles s \<and>
      style_generations (update_preview P None s) = style_generations s \<and>
      dark_mode_checked (update_preview P None s) = dark_mode_checked s" for s
    by (simp add: style_view_def)
  then show ?thesis
    by (simp add: toggle_dark_mode_def Let_def cached_styles_def style_generations_def)
qed

lemma toggle_dark_mode_editor_text:
  "editor_text (toggle_dark_mode P st) = editor_text st"
  by (simp add: toggle_dark_mode_def Let_def update_preview_def emit_def split: sum.splits)

lemma styles_loaded_cong:
  "style_view a = style_view b \<Longrightarrow> styles_loaded P a = styles_loaded P b"
  by (simp add: style_view_def styles_loaded_def)

lemma styles_loaded_toggle:
  assumes "styles_loaded P st"
  shows "styles_loaded P (toggle_dark_mode P (st\<lparr>dark_mode_checked := d\<rparr>))"
proof -
  let ?s = "st\<lparr>dark_mode_checked := d\<rparr>"
  have c: "cached_styles ?s = cached_styles st"
    by (simp add: cached_styles_def)
  from assms c have "current_css (toggle_dark_mode P ?s) = theme_css P d"
    by (simp add: toggle_dark_mode_current_css styles_loaded_def cached_styles_def
        theme_css_def)
  with assms c show ?thesis
    by (simp add: styles_loaded_def toggle_dark_mode_frame)
qed

lemma styles_loaded_step:
  assumes "styles_loaded P st"
  shows "styles_loaded P (fst (step P a (st, w)))"
proof (cases "a = ToggleDarkMode")
  case True
  with assms show ?thesis by (simp add: styles_loaded_toggle)
next
  case False
  then have "style_view (fst (step P a (st, w))) = style_view st"
    by (rule style_view_step)
  then have "styles_loaded P (fst (step P a (st, w))) = styles_loaded P st"
    by (rule styles_loaded_cong)
  with assms show ?thesis by simp
qed

lemma styles_loaded_run:
  "styles_loaded P st \<Longrightarrow> styles_loaded P (fst (run P as (st, w)))"
proof (induction as arbitrary: st w)
  case Nil
  then show ?case by simp
next
  case (Cons a as)
  obtain st' w' where s: "step P a (st, w) = (st', w')" by (cases "step P a (st, w)")
  from Cons.prems have "styles_loaded P (fst (step P a (st, w)))" by (rule styles_loaded_step)
  with s have "styles_loaded P st'" by simp
  then have "styles_loaded P (fst (run P as (st', w')))" by (rule Cons.IH)
  with s show ?case by simp
qed

lemma style_view_load_styles:
  "cached_styles (load_styles P st) =
     (get_style_defs P ''default'' ''.codehilite'', get_style_defs P ''monokai'' ''.codehilite'',
      base_css_text, dark_mode_css_text, html_template_text) \<and>
   current_css (load_styles P st) = base_css_text @ get_style_defs P ''default'' ''.codehilite'' \<and>
   dark_mode_checked (load_styles P st) = dark_mode_checked st \<and>
   style_generations (load_styles P st) =
     style_generations st @
       [GetStyleDefs ''default'' ''.codehilite'', GetStyleDefs ''monokai'' ''.codehilite'']"
  by (simp add: load_styles_def Let_def cached_styles_def style_generations_def emit_def)

lemma style_view_init:
  "style_view (viewer_init P) =
    ((get_style_defs P ''default'' ''.codehilite'', get_style_defs P ''monokai'' ''.codehilite'',
      base_css_text, dark_mode_css_text, html_template_text),
     base_css_text @ get_style_defs P ''default'' ''.codehilite'', False,
     [GetStyleDefs ''default'' ''.codehilite'', GetStyleDefs ''monokai'' ''.codehilite''])"
proof -
  let ?st3 = "setup_ui P (blank_viewer\<lparr>window_title := ''Python Markdown Viewer'',
     current_file_path := None, api_key_set := False, gemini_api_key := None\<rparr>)"
  have a: "dark_mode_checked ?st3 = False" "style_generations ?st3 = []"
    by (simp_all add: setup_ui_def blank_viewer_def style_generations_def)
  have "style_view (viewer_init P) = style_view ((load_styles P ?st3)\<lparr>update_timer := None\<rparr>)"
    by (simp add: viewer_init_def Let_def style_view_update_preview)
  also have "\<dots> = style_view (load_styles P ?st3)"
    by (simp add: style_view_defs)
  finally show ?thesis
    using style_view_load_styles [of P ?st3] a
    by (simp add: style_view_def)
qed

lemma styles_loaded_init: "styles_loaded P (viewer_init P)"
  using style_view_init [of P]
  by (simp add: style_view_def styles_loaded_def theme_css_def)

lemma styles_loaded_session: "styles_loaded P (session P w acts)"
  unfolding session_def by (rule styles_loaded_run) (rule styles_loaded_init)

lemma preview_html_update_preview:
  assumes "styles_loaded P st"
  shows "preview_html (update_preview P None st) =
           render_html P (editor_text st) (dark_mode_checked st)"
  using assms
  by (simp add: update_preview_def Let_def emit_def styles_loaded_def cached_styles_def
      format_template render_html_def)

lemma style_frame_step:
  "style_generations (fst (step P a (st, w))) = style_generations st \<and>
   cached_styles (fst (step P a (st, w))) = cached_styles st"
proof (cases "a = ToggleDarkMode")
  case True
  then show ?thesis
    by (simp add: toggle_dark_mode_frame) (simp add: style_generations_def cached_styles_def)
next
  case False
  then have "style_view (fst (step P a (st, w))) = style_view st"
    by (rule style_view_step)
  then show ?thesis by (simp add: style_view_def)
qed

lemma style_frame_run:
  "style_generations (fst (run P as (st, w))) = style_generations st \<and>
   cached_styles (fst (run P as (st, w))) = cached_styles st"
proof (induction as arbitrary: st w)
  case Nil
  then show ?case by simp
next
  case (Cons a as)
  obtain st' w' where s: "step P a (st, w) = (st', w')" by (cases "step P a (st, w)")
  from style_frame_step [of P a st w] s
  have "style_generations st' = style_generations st \<and> cached_styles st' = cached_styles st"
    by simp
  with s Cons.IH [of st' w'] show ?case by simp
qed

text \<open>The definitions a run of the sample platform is evaluated with.\<close>

lemmas viewer_defs =
  session_def viewer_init_def setup_ui_def load_styles_def blank_viewer_def
  update_preview_def emit_def status_message_def base_url_def truthy_def
  on_text_changed_def timer_start_def timer_stop_def elapse_def
  toggle_dark_mode_def Let_def format_template sample_platform_def sample_world_def


section \<open>The preview pipeline\<close>

text \<open>
  C1. In every state the viewer can reach, \<^verbatim>\<open>update_preview\<close> sets the page to
  \<open>render_html\<close> of the editor's text and the dark-mode check mark: a function of these two
  and of nothing else in the state. So two calls in two sessions (any actions, any file
  systems) with the same text and the same check mark set the same HTML.
\<close>

theorem preview_is_pure_function:
  "preview_html (update_preview P None (session P w acts)) =
     render_html P (editor_text (session P w acts)) (dark_mode_checked (session P w acts)) \<and>
   (editor_text (session P w1 acts1) = editor_text (session P w2 acts2) \<and>
    dark_mode_checked (session P w1 acts1) = dark_mode_checked (session P w2 acts2) \<longrightarrow>
    preview_html (update_preview P None (session P w1 acts1)) =
      preview_html (update_preview P None (session P w2 acts2)))"
proof -
  have r: "preview_html (update_preview P None (session P v as)) =
      render_html P (editor_text (session P v as)) (dark_mode_checked (session P v as))"
    for v as
  proof -
    have "styles_loaded P (session P v as)"
      by (rule styles_loaded_session)
    then show ?thesis
      by (rule preview_html_update_preview)
  qed
  show ?thesis
  proof (intro conjI impI)
    show "preview_html (update_preview P None (session P w acts)) =
        render_html P (editor_text (session P w acts)) (dark_mode_checked (session P w acts))"
      by (rule r)
  next
    assume "editor_text (session P w1 acts1) = editor_text (session P w2 acts2) \<and>
      dark_mode_checked (session P w1 acts1) = dark_mode_checked (session P w2 acts2)"
    then show "preview_html (update_preview P None (session P w1 acts1)) =
        preview_html (update_preview P None (session P w2 acts2))"
      by (simp add: r)
  qed
qed

theorem preview_is_pure_function_witness:
  "editor_text (session sample_platform sample_world
      [Edit ''_a_'', ToggleDarkMode, Elapse 300]) =
   editor_text (session sample_platform (sample_world\<lparr>files := Map.empty\<rparr>)
      [ToggleDarkMode, OpenFile ''/home/user/notes.md'', IncreaseFont, Edit ''_a_'']) \<and>
   dark_mode_checked (session sample_platform sample_world
      [Edit ''_a_'', ToggleDarkMode, Elapse 300]) =
   dark_mode_checked (session sample_platform (sample_world\<lparr>files := Map.empty\<rparr>)
      [ToggleDarkMode, OpenFile ''/home/user/notes.md'', IncreaseFont, Edit ''_a_'']) \<and>
   preview_html (update_preview sample_platform None (session sample_platform sample_world
      [Edit ''_a_'', ToggleDarkMode, Elapse 300])) =
   preview_html (update_preview sample_platform None
     (session sample_platform (sample_world\<lparr>files := Map.empty\<rparr>)
      [ToggleDarkMode, OpenFile ''/home/user/notes.md'', IncreaseFont, Edit ''_a_''])) \<and>
   preview_html (update_preview sample_platform None (session sample_platform sample_world
      [Edit ''_a_'', ToggleDarkMode, Elapse 300])) =
   render_html sample_platform ''_a_'' True"
proof -
  let ?s1 = "session sample_platform sample_world [Edit ''_a_'', ToggleDarkMode, Elapse 300]"
  let ?s2 = "session sample_platform (sample_world\<lparr>files := Map.empty\<rparr>)
      [ToggleDarkMode, OpenFile ''/home/user/notes.md'', IncreaseFont, Edit ''_a_'']"
  have t1: "editor_text ?s1 = ''_a_''" and d1: "dark_mode_checked ?s1"
    by (simp_all add: viewer_defs)
  have t2: "editor_text ?s2 = ''_a_''" and d2: "dark_mode_checked ?s2"
    by (simp_all add: viewer_defs open_file_def read_text_def adjust_font_size_def)
  note T = preview_is_pure_function
    [of sample_platform sample_world "[Edit ''_a_'', ToggleDarkMode, Elapse 300]"
        sample_world "[Edit ''_a_'', ToggleDarkMode, Elapse 300]"
        "sample_world\<lparr>files := Map.empty\<rparr>"
        "[ToggleDarkMode, OpenFile ''/home/user/notes.md'', IncreaseFont, Edit ''_a_'']"]
  from T have "preview_html (update_preview sample_platform None ?s1) =
      render_html sample_platform (editor_text ?s1) (dark_mode_checked ?s1)"
    by (rule conjunct1)
  with t1 d1 have D: "preview_html (update_preview sample_platform None ?s1) =
      render_html sample_platform ''_a_'' True"
    by simp
  from T have "editor_text ?s1 = editor_text ?s2 \<and>
      dark_mode_checked ?s1 = dark_mode_checked ?s2 \<longrightarrow>
      preview_html (update_preview sample_platform None ?s1) =
      preview_html (update_preview sample_platform None ?s2)"
    by (rule conjunct2)
  moreover have A: "editor_text ?s1 = editor_text ?s2" using t1 t2 by simp
  moreover have B: "dark_mode_checked ?s1 = dark_mode_checked ?s2" using d1 d2 by simp
  ultimately have C: "preview_html (update_preview sample_platform None ?s1) =
      preview_html (update_preview sample_platform None ?s2)"
    by blast
  from A B C D show ?thesis by blast
qed

text \<open>
  C2. For the text of any reachable state, the page made by \<^verbatim>\<open>toggle_dark_mode\<close> with the
  dark theme checked and the page made with it unchecked are the same template around the
  same content fragment, the conversion of the editor's text; only the CSS in the style slot
  differs. Toggling through the menu leaves the text as it is and shows the page of the
  other theme.
\<close>

theorem theme_changes_only_css:
  "preview_html (toggle_dark_mode P ((session P w acts)\<lparr>dark_mode_checked := True\<rparr>)) =
     wrap_html
       (base_css_text @ dark_mode_css_text @ get_style_defs P ''monokai'' ''.codehilite'')
       (markdown P preview_extras (editor_text (session P w acts))) \<and>
   preview_html (toggle_dark_mode P ((session P w acts)\<lparr>dark_mode_checked := False\<rparr>)) =
     wrap_html
       (base_css_text @ get_style_defs P ''default'' ''.codehilite'')
       (markdown P preview_extras (editor_text (session P w acts))) \<and>
   editor_text (fst (step P ToggleDarkMode (session P w acts, w'))) =
     editor_text (session P w acts) \<and>
   preview_html (fst (step P ToggleDarkMode (session P w acts, w'))) =
     wrap_html (theme_css P (\<not> dark_mode_checked (session P w acts)))
       (markdown P preview_extras (editor_text (session P w acts)))"
proof -
  let ?st = "session P w acts"
  have l: "styles_loaded P ?st" by (rule styles_loaded_session)
  have "preview_html (toggle_dark_mode P (?st\<lparr>dark_mode_checked := d\<rparr>)) =
          wrap_html (theme_css P d) (markdown P preview_extras (editor_text ?st))" for d
    using l
    by (simp add: toggle_dark_mode_def Let_def update_preview_def emit_def styles_loaded_def
        cached_styles_def format_template theme_css_def)
  then show ?thesis
    by (simp add: theme_css_def toggle_dark_mode_editor_text)
qed

theorem theme_changes_only_css_witness:
  "preview_html (toggle_dark_mode sample_platform
      ((session sample_platform sample_world [Edit ''_a_''])\<lparr>dark_mode_checked := True\<rparr>)) =
     wrap_html (base_css_text @ dark_mode_css_text @ ''.codehilite .monokai'') ''<p>_a_</p>\<newline>'' \<and>
   preview_html (toggle_dark_mode sample_platform
      ((session sample_platform sample_world [Edit ''_a_''])\<lparr>dark_mode_checked := False\<rparr>)) =
     wrap_html (base_css_text @ ''.codehilite .default'') ''<p>_a_</p>\<newline>''"
proof -
  have t: "editor_text (session sample_platform sample_world [Edit ''_a_'']) = ''_a_''"
    by (simp add: viewer_defs)
  have m: "markdown sample_platform preview_extras ''_a_'' = ''<p>_a_</p>\<newline>''"
    by (simp add: sample_platform_def sample_markdown_def preview_extras_def)
  have g: "get_style_defs sample_platform ''monokai'' ''.codehilite'' = ''.codehilite .monokai''"
    "get_style_defs sample_platform ''default'' ''.codehilite'' = ''.codehilite .default''"
    by (simp_all add: sample_platform_def)
  from theme_changes_only_css [of sample_platform sample_world "[Edit ''_a_'']" sample_world]
  show ?thesis
    by (simp only: t m g)
qed


text \<open>
  C8. \<^verbatim>\<open>on_text_changed\<close>, \<^verbatim>\<open>update_preview\<close> and \<^verbatim>\<open>toggle_dark_mode\<close> leave the cached
  style fragments (and the template) as they are and never call the style generator;
  \<^verbatim>\<open>toggle_dark_mode\<close> sets \<open>current_css\<close> to one of the two concatenations of cached
  fragments. In a whole session, whatever the actions, the generator is called exactly twice,
  by \<^verbatim>\<open>load_styles\<close> at start-up, and the fragments keep the values it gave them.
\<close>

theorem styles_generated_once:
  "cached_styles (on_text_changed st) = cached_styles st \<and>
   style_generations (on_text_changed st) = style_generations st \<and>
   cached_styles (update_preview P h st) = cached_styles st \<and>
   style_generations (update_preview P h st) = style_generations st \<and>
   cached_styles (toggle_dark_mode P st) = cached_styles st \<and>
   style_generations (toggle_dark_mode P st) = style_generations st \<and>
   current_css (toggle_dark_mode P st) =
     (if dark_mode_checked st then base_css st @ dark_mode_css st @ pygments_dark_css st
      else base_css st @ pygments_css st) \<and>
   style_generations (session P w acts) =
     [GetStyleDefs ''default'' ''.codehilite'', GetStyleDefs ''monokai'' ''.codehilite''] \<and>
   cached_styles (session P w acts) =
     (get_style_defs P ''default'' ''.codehilite'', get_style_defs P ''monokai'' ''.codehilite'',
      base_css_text, dark_mode_css_text, html_template_text)"
proof -
  have a: "cached_styles (on_text_changed st) = cached_styles st \<and>
      style_generations (on_text_changed st) = style_generations st"
    using style_view_on_text_changed [of st] by (simp add: style_view_def)
  have b: "cached_styles (update_preview P h st) = cached_styles st \<and>
      style_generations (update_preview P h st) = style_generations st"
    using style_view_update_preview [of P h st] by (simp add: style_view_def)
  have c: "style_generations (session P w acts) = style_generations (viewer_init P) \<and>
      cached_styles (session P w acts) = cached_styles (viewer_init P)"
    unfolding session_def by (rule style_frame_run)
  have d: "style_generations (viewer_init P) =
       [GetStyleDefs ''default'' ''.codehilite'', GetStyleDefs ''monokai'' ''.codehilite''] \<and>
     cached_styles (viewer_init P) =
       (get_style_defs P ''default'' ''.codehilite'',
        get_style_defs P ''monokai'' ''.codehilite'',
        base_css_text, dark_mode_css_text, html_template_text)"
    using style_view_init [of P] by (simp add: style_view_def)
  from a b c d show ?thesis
    by (simp add: toggle_dark_mode_frame toggle_dark_mode_current_css)
qed

theorem styles_generated_once_witness:
  "style_generations (session sample_platform sample_world
      [Edit ''# a'', Elapse 300, ToggleDarkMode, Edit ''# b'', ToggleDarkMode, Elapse 500]) =
     [GetStyleDefs ''default'' ''.codehilite'', GetStyleDefs ''monokai'' ''.codehilite''] \<and>
   cached_styles (session sample_platform sample_world
      [Edit ''# a'', Elapse 300, ToggleDarkMode, Edit ''# b'', ToggleDarkMode, Elapse 500]) =
     (''.codehilite .default'', ''.codehilite .monokai'',
      base_css_text, dark_mode_css_text, html_template_text) \<and>
   current_css (toggle_dark_mode sample_platform
      ((viewer_init sample_platform)\<lparr>dark_mode_checked := True\<rparr>)) =
     base_css_text @ dark_mode_css_text @ ''.codehilite .monokai''"
proof -
  have g: "get_style_defs sample_platform ''monokai'' ''.codehilite'' = ''.codehilite .monokai''"
    "get_style_defs sample_platform ''default'' ''.codehilite'' = ''.codehilite .default''"
    by (simp_all add: sample_platform_def)
  have i: "base_css ((viewer_init sample_platform)\<lparr>dark_mode_checked := True\<rparr>) = base_css_text"
    "dark_mode_css ((viewer_init sample_platform)\<lparr>dark_mode_checked := True\<rparr>) =
       dark_mode_css_text"
    "pygments_dark_css ((viewer_init sample_platform)\<lparr>dark_mode_checked := True\<rparr>) =
       ''.codehilite .monokai''"
    by (simp_all add: viewer_defs)
  from styles_generated_once
    [of "(viewer_init sample_platform)\<lparr>dark_mode_checked := True\<rparr>" sample_platform None
        sample_world
        "[Edit ''# a'', Elapse 300, ToggleDarkMode, Edit ''# b'', ToggleDarkMode, Elapse 500]"]
  show ?thesis
    by (simp add: g i)
qed

section \<open>HTML export\<close>

text \<open>
  \<^verbatim>\<open>export_to_html\<close> converts the text again, with the extras \<open>export_extras\<close>, while the
  preview is converted with \<open>preview_extras\<close>: the file holds the page of the preview exactly
  when the converter gives the same fragment under both lists of extras.
\<close>

lemma export_to_html_writes:
  assumes "styles_loaded P st" and "p \<noteq> []" and "\<not> locked w p"
  shows "files (snd (export_to_html P p (st, w))) p =
           Some (wrap_html (theme_css P (dark_mode_checked st))
                   (markdown P export_extras (editor_text st)))"
  using assms
  by (simp add: export_to_html_def Let_def styles_loaded_def cached_styles_def format_template
      write_text_def)

lemma export_matches_preview_iff:
  assumes "styles_loaded P st" and "p \<noteq> []" and "\<not> locked w p"
  shows "files (snd (export_to_html P p (st, w))) p =
           Some (preview_html (update_preview P None st)) \<longleftrightarrow>
         markdown P export_extras (editor_text st) = markdown P preview_extras (editor_text st)"
  using assms
  by (simp add: export_to_html_writes preview_html_update_preview render_html_def
      wrap_html_inject)

text \<open>
  C3. The exported file is not always the page the preview shows. On the sample platform,
  whose converter honours \<^verbatim>\<open>code-friendly\<close> as markdown2 documents it, the text \<^verbatim>\<open>_a_\<close> is
  previewed with its underscores and exported with an emphasis element.
\<close>

theorem export_differs_from_preview:
  "preview_html (session sample_platform sample_world [Edit ''_a_'', Elapse 300]) =
     wrap_html (theme_css sample_platform False) ''<p>_a_</p>\<newline>'' \<and>
   files (snd (export_to_html sample_platform ''/home/user/out.html''
      (session sample_platform sample_world [Edit ''_a_'', Elapse 300], sample_world)))
      ''/home/user/out.html'' =
     Some (wrap_html (theme_css sample_platform False) ''<p><em>a</em></p>\<newline>'') \<and>
   files (snd (export_to_html sample_platform ''/home/user/out.html''
      (session sample_platform sample_world [Edit ''_a_'', Elapse 300], sample_world)))
      ''/home/user/out.html'' \<noteq>
     Some (preview_html (session sample_platform sample_world [Edit ''_a_'', Elapse 300]))"
proof -
  let ?st = "session sample_platform sample_world [Edit ''_a_'', Elapse 300]"
  let ?out = "files (snd (export_to_html sample_platform ''/home/user/out.html''
      (?st, sample_world))) ''/home/user/out.html''"
  have l: "styles_loaded sample_platform ?st" by (rule styles_loaded_session)
  have t: "editor_text ?st = ''_a_''" and d: "dark_mode_checked ?st = False"
    by (simp_all add: viewer_defs)
  have p: "preview_html ?st = wrap_html (theme_css sample_platform False) ''<p>_a_</p>\<newline>''"
    by (simp add: viewer_defs theme_css_def preview_extras_def sample_markdown_def)
  have u: "\<not> locked sample_world ''/home/user/out.html''"
    by (simp add: sample_world_def)
  have "?out = Some (wrap_html (theme_css sample_platform (dark_mode_checked ?st))
                   (markdown sample_platform export_extras (editor_text ?st)))"
    using l u by (intro export_to_html_writes) simp_all
  then have e: "?out = Some (wrap_html (theme_css sample_platform False) ''<p><em>a</em></p>\<newline>'')"
    unfolding t d
    by (simp add: sample_platform_def sample_markdown_def export_extras_def theme_css_def)
  from p e show ?thesis
    by (simp add: wrap_html_inject)
qed


section \<open>Debouncing\<close>

lemma render_calls_update_preview:
  "render_calls (update_preview P h st) = render_calls st @ [UpdatePreview (clock st)]"
  by (simp add: update_preview_def Let_def render_calls_def emit_def split: sum.splits)

lemma clock_update_preview: "clock (update_preview P h st) = clock st"
  by (simp add: update_preview_def Let_def emit_def split: sum.splits)

lemma update_timer_update_preview: "update_timer (update_preview P h st) = update_timer st"
  by (simp add: update_preview_def Let_def emit_def split: sum.splits)

text \<open>One edit followed by less than the quiet window: nothing is rendered.\<close>

lemma edit_then_short_gap:
  assumes "gap < 300"
  shows "render_calls (elapse P gap (on_text_changed (st\<lparr>editor_text := t\<rparr>))) = render_calls st"
    and "clock (elapse P gap (on_text_changed (st\<lparr>editor_text := t\<rparr>))) = clock st + gap"
  using assms
  by (simp_all add: elapse_def on_text_changed_def timer_start_def timer_stop_def
      render_calls_def)

text \<open>One edit followed by the quiet window or more: one render, 300 ms after the edit.\<close>

lemma edit_then_quiet:
  assumes "300 \<le> gap"
  shows "render_calls (elapse P gap (on_text_changed (st\<lparr>editor_text := t\<rparr>))) =
           render_calls st @ [UpdatePreview (clock st + 300)]"
    and "clock (elapse P gap (on_text_changed (st\<lparr>editor_text := t\<rparr>))) = clock st + gap"
proof -
  let ?s = "st\<lparr>editor_text := t, update_timer := None, clock := clock st + 300\<rparr>"
  have e: "elapse P gap (on_text_changed (st\<lparr>editor_text := t\<rparr>)) =
      (update_preview P None ?s)\<lparr>clock := clock st + gap\<rparr>"
    using assms
    by (simp add: elapse_def on_text_changed_def timer_start_def timer_stop_def)
  have "render_calls ((update_preview P None ?s)\<lparr>clock := clock st + gap\<rparr>) =
      render_calls (update_preview P None ?s)"
    by (simp add: render_calls_def)
  also have "\<dots> = render_calls ?s @ [UpdatePreview (clock ?s)]"
    by (rule render_calls_update_preview)
  also have "\<dots> = render_calls st @ [UpdatePreview (clock st + 300)]"
    by (simp add: render_calls_def)
  finally show "render_calls (elapse P gap (on_text_changed (st\<lparr>editor_text := t\<rparr>))) =
           render_calls st @ [UpdatePreview (clock st + 300)]"
    by (simp only: e)
  show "clock (elapse P gap (on_text_changed (st\<lparr>editor_text := t\<rparr>))) = clock st + gap"
    by (simp add: e)
qed

lemma edit_times_snoc_not_Nil: "edit_times now (es @ [e]) \<noteq> []"
  by (cases es; cases e) (auto split: prod.splits)

lemma burst_renders_once:
  assumes "\<forall>(text, gap) \<in> set burst. gap < 300" and "300 \<le> quiet"
  shows "render_calls (fst (run P (typing (burst @ [(last_text, quiet)])) (st, w))) =
           render_calls st @
             [UpdatePreview (last (edit_times (clock st) (burst @ [(last_text, quiet)])) + 300)]"
  using assms
proof (induction burst arbitrary: st)
  case Nil
  then show ?case by (simp add: edit_then_quiet)
next
  case (Cons e burst)
  obtain t gap where e: "e = (t, gap)" by (cases e)
  let ?st' = "elapse P gap (on_text_changed (st\<lparr>editor_text := t\<rparr>))"
  from Cons.prems e have g: "gap < 300" by simp
  from Cons.prems have "\<forall>(text, gap) \<in> set burst. gap < 300" by simp
  from Cons.IH [OF this Cons.prems(2), of ?st']
  have "render_calls (fst (run P (typing (burst @ [(last_text, quiet)])) (?st', w))) =
          render_calls ?st' @
            [UpdatePreview (last (edit_times (clock ?st') (burst @ [(last_text, quiet)])) + 300)]" .
  with g e show ?case
    by (simp add: edit_then_short_gap edit_times_snoc_not_Nil)
qed

lemma burst_renders_nothing_yet:
  assumes "\<forall>(text, gap) \<in> set burst. gap < 300"
  shows "render_calls (fst (run P (typing burst) (st, w))) = render_calls st"
  using assms
proof (induction burst arbitrary: st)
  case Nil
  then show ?case by simp
next
  case (Cons e burst)
  obtain t gap where e: "e = (t, gap)" by (cases e)
  let ?st' = "elapse P gap (on_text_changed (st\<lparr>editor_text := t\<rparr>))"
  from Cons.prems e have g: "gap < 300" by simp
  from Cons.prems have "\<forall>(text, gap) \<in> set burst. gap < 300" by simp
  from Cons.IH [OF this, of ?st']
  have "render_calls (fst (run P (typing burst) (?st', w))) = render_calls ?st'" .
  with g e show ?case
    by (simp add: edit_then_short_gap)
qed

lemma spaced_edits_render_each:
  assumes "\<forall>(text, gap) \<in> set edits. 300 < gap"
  shows "render_calls (fst (run P (typing edits) (st, w))) =
           render_calls st @ map (\<lambda>t. UpdatePreview (t + 300)) (edit_times (clock st) edits)"
  using assms
proof (induction edits arbitrary: st)
  case Nil
  then show ?case by simp
next
  case (Cons e edits)
  obtain t gap where e: "e = (t, gap)" by (cases e)
  let ?st' = "elapse P gap (on_text_changed (st\<lparr>editor_text := t\<rparr>))"
  from Cons.prems e have g: "300 \<le> gap" by simp
  from Cons.prems have "\<forall>(text, gap) \<in> set edits. 300 < gap" by simp
  from Cons.IH [OF this, of ?st']
  have "render_calls (fst (run P (typing edits) (?st', w))) =
          render_calls ?st' @
            map (\<lambda>t. UpdatePreview (t + 300)) (edit_times (clock ?st') edits)" .
  with g e show ?case
    by (simp add: edit_then_quiet)
qed

text \<open>
  C4. Edits that follow one another by less than 300 ms trigger no call of
  \<^verbatim>\<open>update_preview\<close> while they last, and exactly one once 300 ms have passed after the last
  of them: it runs 300 ms after the last edit. Edits that are each followed by more than
  300 ms trigger one call each, 300 ms after the edit. This holds from any state, whatever
  the timer was doing before the first edit.
\<close>

theorem debounce_renders:
  "((\<forall>(text, gap) \<in> set burst. gap < 300) \<longrightarrow>
      render_calls (fst (run P (typing burst) (st, w))) = render_calls st) \<and>
   ((\<forall>(text, gap) \<in> set burst. gap < 300) \<and> 300 \<le> quiet \<longrightarrow>
      render_calls (fst (run P (typing (burst @ [(last_text, quiet)])) (st, w))) =
        render_calls st @
          [UpdatePreview
             (last (edit_times (clock st) (burst @ [(last_text, quiet)])) + 300)]) \<and>
   ((\<forall>(text, gap) \<in> set edits. 300 < gap) \<longrightarrow>
      render_calls (fst (run P (typing edits) (st, w))) =
        render_calls st @
          map (\<lambda>t. UpdatePreview (t + 300)) (edit_times (clock st) edits))"
  using burst_renders_once [of burst quiet P last_text st w]
    spaced_edits_render_each [of edits P st w]
    burst_renders_nothing_yet [of burst P st w]
  by blast

theorem debounce_renders_witness:
  "render_calls (fst (run sample_platform
      (typing [(''a'', 100), (''ab'', 299), (''abc'', 0)])
      (viewer_init sample_platform, sample_world))) =
     [UpdatePreview 0] \<and>
   render_calls (fst (run sample_platform
      (typing ([(''a'', 100), (''ab'', 299), (''abc'', 0)] @ [(''abcd'', 300)]))
      (viewer_init sample_platform, sample_world))) =
     [UpdatePreview 0, UpdatePreview 699] \<and>
   render_calls (fst (run sample_platform
      (typing [(''a'', 301), (''ab'', 1000), (''abc'', 500)])
      (viewer_init sample_platform, sample_world))) =
     [UpdatePreview 0, UpdatePreview 300, UpdatePreview 601, UpdatePreview 1601]"
proof -
  have h1: "\<forall>(text, gap) \<in> set [(''a'', 100), (''ab'', 299), (''abc'', 0)]. gap < (300::nat)"
    by simp
  have h2: "\<forall>(text, gap) \<in> set [(''a'', 301), (''ab'', 1000), (''abc'', 500)]. (300::nat) < gap"
    by simp
  have i: "render_calls (viewer_init sample_platform) = [UpdatePreview 0]"
    "clock (viewer_init sample_platform) = 0"
    by (simp_all add: viewer_defs render_calls_def)
  note T = debounce_renders [of "[(''a'', 100), (''ab'', 299), (''abc'', 0)]"
      sample_platform "viewer_init sample_platform" sample_world 300 "''abcd''"
      "[(''a'', 301), (''ab'', 1000), (''abc'', 500)]"]
  from T h1 have c: "render_calls (fst (run sample_platform
      (typing [(''a'', 100), (''ab'', 299), (''abc'', 0)])
      (viewer_init sample_platform, sample_world))) =
     [UpdatePreview 0]"
    by (simp add: i)
  from T h1 have a: "render_calls (fst (run sample_platform
      (typing ([(''a'', 100), (''ab'', 299), (''abc'', 0)] @ [(''abcd'', 300)]))
      (viewer_init sample_platform, sample_world))) =
     [UpdatePreview 0, UpdatePreview 699]"
    by (simp add: i)
  from T h2 have b: "render_calls (fst (run sample_platform
      (typing [(''a'', 301), (''ab'', 1000), (''abc'', 500)])
      (viewer_init sample_platform, sample_world))) =
     [UpdatePreview 0, UpdatePreview 300, UpdatePreview 601, UpdatePreview 1601]"
    by (simp add: i)
  from c a b show ?thesis by blast
qed


section \<open>The AI bridge\<close>

lemma prompts_emit:
  "prompts (emit e st) = (if is_input_dialog e then Suc (prompts st) else prompts st)"
  by (simp add: prompts_def emit_def)

lemma get_api_key_cached:
  "key_cached k st \<Longrightarrow> get_api_key dlg check st = (True, st)"
  by (simp add: get_api_key_def key_cached_def truthy_def)

lemma get_api_key_prompts:
  "\<not> (api_key_set st \<and> truthy (gemini_api_key st)) \<Longrightarrow>
     prompts (snd (get_api_key dlg check st)) = prompts st + 1"
  by (simp add: get_api_key_def Let_def prompts_def emit_def split: option.splits)

lemma get_api_key_invalid:
  assumes "\<not> (api_key_set st \<and> truthy (gemini_api_key st))"
    and "ok" and "text \<noteq> []" and "check text = Some e"
  shows "fst (get_api_key (text, ok) check st) = False"
    and "no_credential (snd (get_api_key (text, ok) check st))"
  using assms
  by (auto simp: get_api_key_def Let_def no_credential_def emit_def)

lemma get_api_key_valid:
  assumes "\<not> (api_key_set st \<and> truthy (gemini_api_key st))"
    and "ok" and "text \<noteq> []" and "check text = None"
  shows "fst (get_api_key (text, ok) check st) = True"
    and "key_cached text (snd (get_api_key (text, ok) check st))"
  using assms
  by (auto simp: get_api_key_def Let_def key_cached_def emit_def)

lemma no_credential_not_cached:
  "no_credential st \<Longrightarrow> \<not> (api_key_set st \<and> truthy (gemini_api_key st))"
  by (simp add: no_credential_def)

lemma get_api_key_rejected:
  assumes "no_credential st" and "rejected (dlg, check)"
  shows "no_credential (snd (get_api_key dlg check st))"
  using assms
  by (cases dlg)
     (auto simp: get_api_key_def Let_def no_credential_def rejected_def emit_def
        split: option.splits)

lemma attempts_all_prompt:
  assumes "no_credential st" and "\<forall>a \<in> set tries. rejected a"
  shows "prompts (attempts tries st) = prompts st + length tries \<and>
         no_credential (attempts tries st)"
  using assms
proof (induction tries arbitrary: st)
  case Nil
  then show ?case by simp
next
  case (Cons a tries)
  obtain dlg check where a: "a = (dlg, check)" by (cases a)
  let ?st' = "snd (get_api_key dlg check st)"
  from Cons.prems a have n: "no_credential ?st'"
    by (simp add: get_api_key_rejected)
  from Cons.prems(1) have p: "prompts ?st' = prompts st + 1"
    by (simp add: get_api_key_prompts no_credential_not_cached)
  from Cons.prems have "\<forall>a \<in> set tries. rejected a" by simp
  from Cons.IH [OF n this] p a show ?case by simp
qed

text \<open>No operation but \<^verbatim>\<open>get_api_key\<close> writes the two credential fields.\<close>

lemma credential_update_preview:
  "api_key_set (update_preview P h st) = api_key_set st"
  "gemini_api_key (update_preview P h st) = gemini_api_key st"
  by (simp_all add: update_preview_def Let_def emit_def split: sum.splits)

lemma key_cached_step:
  assumes "key_cached k st"
  shows "key_cached k (fst (step P a (st, w)))"
proof (cases a)
  case (Edit t)
  with assms show ?thesis
    by (simp add: key_cached_def on_text_changed_def timer_start_def timer_stop_def)
next
  case (Elapse d)
  with assms show ?thesis
    by (simp add: elapse_def key_cached_def credential_update_preview timer_stop_def
        split: option.splits)
next
  case (OpenFile p)
  with assms show ?thesis
    by (simp add: open_file_def Let_def key_cached_def emit_def status_message_def
        on_text_changed_def timer_start_def timer_stop_def split: sum.splits)
next
  case (SaveFile p)
  with assms show ?thesis
    by (simp add: save_file.simps save_file_as_unfold key_cached_def emit_def status_message_def
        split: sum.splits)
next
  case (SaveFileAs p)
  with assms show ?thesis
    by (simp add: save_file_as_unfold key_cached_def emit_def status_message_def
        split: sum.splits)
next
  case (ExportHtml p)
  with assms show ?thesis
    by (simp add: export_to_html_def Let_def key_cached_def emit_def status_message_def
        split: sum.splits)
next
  case (ExportPdf p r)
  with assms show ?thesis
    by (simp add: export_to_pdf_def handle_pdf_creation_def print_to_pdf_def key_cached_def
        emit_def status_message_def)
next
  case (PdfFinished ok)
  with assms show ?thesis
    by (simp add: pdf_printing_finished_def key_cached_def emit_def split: list.splits)
next
  case ToggleDarkMode
  with assms show ?thesis
    by (simp add: toggle_dark_mode_def Let_def key_cached_def credential_update_preview)
next
  case IncreaseFont
  with assms show ?thesis
    by (simp add: adjust_font_size_def Let_def key_cached_def emit_def)
next
  case DecreaseFont
  with assms show ?thesis
    by (simp add: adjust_font_size_def Let_def key_cached_def emit_def)
next
  case (SendSelectionToAi sel)
  with assms show ?thesis
    by (simp add: prepare_ai_tab_def key_cached_def emit_def)
next
  case (RunAi dlg check generate)
  from assms have "get_api_key dlg check st = (True, st)"
    by (rule get_api_key_cached)
  with assms RunAi show ?thesis
    by (simp add: run_ai_generation_def Let_def key_cached_def emit_def status_message_def
        split: sum.splits)
qed

lemma key_cached_run:
  "key_cached k st \<Longrightarrow> key_cached k (fst (run P as (st, w)))"
proof (induction as arbitrary: st w)
  case Nil
  then show ?case by simp
next
  case (Cons a as)
  obtain st' w' where s: "step P a (st, w) = (st', w')" by (cases "step P a (st, w)")
  from Cons.prems have "key_cached k (fst (step P a (st, w)))" by (rule key_cached_step)
  with s have "key_cached k st'" by simp
  then have "key_cached k (fst (run P as (st', w')))" by (rule Cons.IH)
  with s show ?case by simp
qed

text \<open>
  C5. When a key is entered (no valid key is cached, the dialog is accepted with a
  non-empty text) and the service rejects it, \<^verbatim>\<open>get_api_key\<close> returns False and leaves
  \<open>api_key_set\<close> False and \<open>gemini_api_key\<close> None; from there every further call shows the
  dialog again, as long as none of them ends with a valid key. When the service accepts the
  key, \<^verbatim>\<open>get_api_key\<close> returns True and keeps the key; after that, whatever the viewer
  does in between, a call returns True and changes nothing: it shows no dialog.
\<close>

theorem api_key_states:
  "(\<not> (api_key_set st \<and> truthy (gemini_api_key st)) \<and> ok \<and> text \<noteq> [] \<and>
      check text = Some e \<longrightarrow>
      fst (get_api_key (text, ok) check st) = False \<and>
      api_key_set (snd (get_api_key (text, ok) check st)) = False \<and>
      gemini_api_key (snd (get_api_key (text, ok) check st)) = None \<and>
      ((\<forall>a \<in> set tries. rejected a) \<longrightarrow>
         prompts (attempts tries (snd (get_api_key (text, ok) check st))) =
           prompts (snd (get_api_key (text, ok) check st)) + length tries)) \<and>
   (\<not> (api_key_set st \<and> truthy (gemini_api_key st)) \<and> ok \<and> text \<noteq> [] \<and>
      check text = None \<longrightarrow>
      fst (get_api_key (text, ok) check st) = True \<and>
      gemini_api_key (snd (get_api_key (text, ok) check st)) = Some text \<and>
      get_api_key dlg' check'
          (fst (run P acts (snd (get_api_key (text, ok) check st), w))) =
        (True, fst (run P acts (snd (get_api_key (text, ok) check st), w))))"
proof (intro conjI impI)
  assume h: "\<not> (api_key_set st \<and> truthy (gemini_api_key st)) \<and> ok \<and> text \<noteq> [] \<and>
      check text = Some e"
  then show "fst (get_api_key (text, ok) check st) = False"
    by (simp add: get_api_key_invalid)
  from h have n: "no_credential (snd (get_api_key (text, ok) check st))"
    by (simp add: get_api_key_invalid)
  then show "api_key_set (snd (get_api_key (text, ok) check st)) = False"
    and "gemini_api_key (snd (get_api_key (text, ok) check st)) = None"
    by (simp_all add: no_credential_def)
  assume "\<forall>a \<in> set tries. rejected a"
  with n show "prompts (attempts tries (snd (get_api_key (text, ok) check st))) =
           prompts (snd (get_api_key (text, ok) check st)) + length tries"
    by (simp add: attempts_all_prompt)
next
  assume h: "\<not> (api_key_set st \<and> truthy (gemini_api_key st)) \<and> ok \<and> text \<noteq> [] \<and>
      check text = None"
  then show "fst (get_api_key (text, ok) check st) = True"
    by (simp add: get_api_key_valid)
  from h have k: "key_cached text (snd (get_api_key (text, ok) check st))"
    by (simp add: get_api_key_valid)
  then show "gemini_api_key (snd (get_api_key (text, ok) check st)) = Some text"
    by (simp add: key_cached_def)
  from k have "key_cached text (fst (run P acts (snd (get_api_key (text, ok) check st), w)))"
    by (rule key_cached_run)
  then show "get_api_key dlg' check'
          (fst (run P acts (snd (get_api_key (text, ok) check st), w))) =
        (True, fst (run P acts (snd (get_api_key (text, ok) check st), w)))"
    by (rule get_api_key_cached)
qed


theorem api_key_states_witness:
  "fst (get_api_key (''bad-key'', True) sample_check (viewer_init sample_platform)) = False \<and>
   api_key_set (snd (get_api_key (''bad-key'', True) sample_check
      (viewer_init sample_platform))) = False \<and>
   gemini_api_key (snd (get_api_key (''bad-key'', True) sample_check
      (viewer_init sample_platform))) = None \<and>
   prompts (attempts
      [((''worse-key'', True), sample_check), (([], True), sample_check),
       ((''good-key'', False), sample_check)]
      (snd (get_api_key (''bad-key'', True) sample_check (viewer_init sample_platform)))) = 4 \<and>
   fst (get_api_key (''good-key'', True) sample_check (viewer_init sample_platform)) = True \<and>
   gemini_api_key (snd (get_api_key (''good-key'', True) sample_check
      (viewer_init sample_platform))) = Some ''good-key'' \<and>
   get_api_key (''bad-key'', True) sample_check
     (fst (run sample_platform [ToggleDarkMode, Edit ''x'']
        (snd (get_api_key (''good-key'', True) sample_check (viewer_init sample_platform)),
         sample_world))) =
   (True, fst (run sample_platform [ToggleDarkMode, Edit ''x'']
        (snd (get_api_key (''good-key'', True) sample_check (viewer_init sample_platform)),
         sample_world)))"
proof -
  let ?init = "viewer_init sample_platform"
  let ?tries = "[((''worse-key'', True), sample_check), (([], True), sample_check),
       ((''good-key'', False), sample_check)]"
  have i: "\<not> (api_key_set ?init \<and> truthy (gemini_api_key ?init))" "prompts ?init = 0"
    by (simp_all add: viewer_defs prompts_def)
  have b: "sample_check ''bad-key'' = Some ''API key not valid''"
    and g: "sample_check ''good-key'' = None"
    by (simp_all add: sample_check_def)
  have r: "\<forall>a \<in> set ?tries. rejected a"
    by (simp add: rejected_def sample_check_def)
  have p: "prompts (snd (get_api_key (''bad-key'', True) sample_check ?init)) = 1"
    using get_api_key_prompts [OF i(1), of "(''bad-key'', True)" sample_check] i(2) by simp
  note B = api_key_states [of ?init True "''bad-key''" sample_check "''API key not valid''"
      ?tries "(''bad-key'', True)" sample_check sample_platform "[]" sample_world]
  note G = api_key_states [of ?init True "''good-key''" sample_check "''API key not valid''"
      "[]" "(''bad-key'', True)" sample_check sample_platform "[ToggleDarkMode, Edit ''x'']"
      sample_world]
  from B i(1) b r p
  have 1: "fst (get_api_key (''bad-key'', True) sample_check ?init) = False \<and>
      api_key_set (snd (get_api_key (''bad-key'', True) sample_check ?init)) = False \<and>
      gemini_api_key (snd (get_api_key (''bad-key'', True) sample_check ?init)) = None \<and>
      prompts (attempts ?tries (snd (get_api_key (''bad-key'', True) sample_check ?init))) = 4"
    by simp
  from G i(1) g
  have 2: "fst (get_api_key (''good-key'', True) sample_check ?init) = True \<and>
      gemini_api_key (snd (get_api_key (''good-key'', True) sample_check ?init)) =
        Some ''good-key'' \<and>
      get_api_key (''bad-key'', True) sample_check
       (fst (run sample_platform [ToggleDarkMode, Edit ''x'']
        (snd (get_api_key (''good-key'', True) sample_check ?init), sample_world))) =
      (True, fst (run sample_platform [ToggleDarkMode, Edit ''x'']
        (snd (get_api_key (''good-key'', True) sample_check ?init), sample_world)))"
    by simp
  from 1 2 show ?thesis by blast
qed

section \<open>Files\<close>

text \<open>
  C6. When \<^verbatim>\<open>save_file\<close> has written the document to \<open>p\<close> (directly, or through the dialog
  of \<^verbatim>\<open>save_file_as\<close>), the file holds the editor's text, and \<^verbatim>\<open>open_file\<close> on \<open>p\<close> puts
  exactly that text back into the editor, whatever the editor holds by then.
\<close>

theorem save_then_open_roundtrip:
  "save_file dlg (st, w) = (st1, w1) \<and> current_file_path st1 = Some p \<and> p \<noteq> [] \<and>
   \<not> locked w p \<longrightarrow>
     files w1 p = Some (editor_text st) \<and>
     editor_text st1 = editor_text st \<and>
     editor_text (fst (open_file p (st2, w1))) = editor_text st \<and>
     current_file_path (fst (open_file p (st2, w1))) = Some p"
  by (auto simp: save_file.simps save_file_as_unfold write_text_def read_text_def open_file_def
      truthy_def Let_def emit_def status_message_def on_text_changed_def timer_start_def
      timer_stop_def split: if_splits option.splits)

theorem save_then_open_roundtrip_witness:
  "files (snd (save_file ''/home/user/new.md''
      (session sample_platform sample_world [Edit ''# Title''], sample_world)))
      ''/home/user/new.md'' = Some ''# Title'' \<and>
   editor_text (fst (open_file ''/home/user/new.md''
      ((fst (save_file ''/home/user/new.md''
          (session sample_platform sample_world [Edit ''# Title''], sample_world)))
         \<lparr>editor_text := ''something else''\<rparr>,
       snd (save_file ''/home/user/new.md''
          (session sample_platform sample_world [Edit ''# Title''], sample_world))))) =
     ''# Title''"
proof -
  let ?st = "session sample_platform sample_world [Edit ''# Title'']"
  let ?r = "save_file ''/home/user/new.md'' (?st, sample_world)"
  have t: "editor_text ?st = ''# Title''" and c: "current_file_path ?st = None"
    by (simp_all add: viewer_defs)
  have u: "\<not> locked sample_world ''/home/user/new.md''"
    by (simp add: sample_world_def)
  have s: "?r = (fst ?r, snd ?r)" by simp
  have p: "current_file_path (fst ?r) = Some ''/home/user/new.md''"
    using c u
    by (simp add: save_file.simps [of _ ?st] save_file_as_unfold truthy_def write_text_def
        status_message_def emit_def)
  from save_then_open_roundtrip
    [of "''/home/user/new.md''" ?st sample_world "fst ?r" "snd ?r" "''/home/user/new.md''"
        "(fst ?r)\<lparr>editor_text := ''something else''\<rparr>"]
    s p u t
  show ?thesis by simp
qed

text \<open>
  C9. \<^verbatim>\<open>save_file_as\<close> with a chosen path sets \<open>current_file_path\<close> and the window title
  to the new path whether or not the write succeeds: when the write fails, the file system is
  unchanged, an error box is shown, and \<open>current_file_path\<close> is the new path all the same.
  \<^verbatim>\<open>open_file\<close> changes \<open>current_file_path\<close>, the title and the text only when the read
  succeeds.
\<close>

theorem save_file_as_keeps_new_path:
  "(file_path \<noteq> [] \<longrightarrow>
      current_file_path (fst (save_file_as file_path (st, w))) = Some file_path \<and>
      window_title (fst (save_file_as file_path (st, w))) = window_title_for file_path) \<and>
   (file_path \<noteq> [] \<and> locked w file_path \<longrightarrow>
      snd (save_file_as file_path (st, w)) = w \<and>
      trace (fst (save_file_as file_path (st, w))) =
        trace st @ [Critical ''Error'' ''Could not save file: Permission denied'']) \<and>
   (file_path \<noteq> [] \<and> read_text w file_path = Inl e \<longrightarrow>
      current_file_path (fst (open_file file_path (st, w))) = current_file_path st \<and>
      window_title (fst (open_file file_path (st, w))) = window_title st \<and>
      editor_text (fst (open_file file_path (st, w))) = editor_text st) \<and>
   (file_path \<noteq> [] \<and> read_text w file_path = Inr t \<longrightarrow>
      current_file_path (fst (open_file file_path (st, w))) = Some file_path \<and>
      editor_text (fst (open_file file_path (st, w))) = t)"
  by (simp add: save_file_as_unfold write_text_def open_file_def Let_def emit_def
      status_message_def on_text_changed_def timer_start_def timer_stop_def)

theorem save_file_as_keeps_new_path_witness:
  "current_file_path (fst (save_file_as ''/readonly/notes.md''
      (viewer_init sample_platform, sample_world))) = Some ''/readonly/notes.md'' \<and>
   window_title (fst (save_file_as ''/readonly/notes.md''
      (viewer_init sample_platform, sample_world))) = ''Python Markdown Viewer - notes.md'' \<and>
   snd (save_file_as ''/readonly/notes.md'' (viewer_init sample_platform, sample_world)) =
     sample_world \<and>
   current_file_path (fst (open_file ''/readonly/notes.md''
      (viewer_init sample_platform, sample_world))) = None \<and>
   window_title (fst (open_file ''/readonly/notes.md''
      (viewer_init sample_platform, sample_world))) = ''Python Markdown Viewer'' \<and>
   current_file_path (fst (open_file ''/home/user/notes.md''
      (viewer_init sample_platform, sample_world))) = Some ''/home/user/notes.md''"
proof -
  let ?init = "viewer_init sample_platform"
  have l: "locked sample_world ''/readonly/notes.md''"
    and r: "read_text sample_world ''/readonly/notes.md'' = Inl (OSError ''Permission denied'')"
    and g: "read_text sample_world ''/home/user/notes.md'' = Inr ''# Notes''"
    by (simp_all add: sample_world_def read_text_def)
  have i: "current_file_path ?init = None" "window_title ?init = ''Python Markdown Viewer''"
    by (simp_all add: viewer_defs)
  have b: "window_title_for ''/readonly/notes.md'' = ''Python Markdown Viewer - notes.md''"
    by (simp add: window_title_for_def basename_def is_sep_def)
  note L = save_file_as_keeps_new_path
    [of "''/readonly/notes.md''" ?init sample_world "OSError ''Permission denied''" "[]"]
  note G = save_file_as_keeps_new_path
    [of "''/home/user/notes.md''" ?init sample_world "OSError []" "''# Notes''"]
  from L l r i b
  have 1: "current_file_path (fst (save_file_as ''/readonly/notes.md'' (?init, sample_world))) =
        Some ''/readonly/notes.md'' \<and>
      window_title (fst (save_file_as ''/readonly/notes.md'' (?init, sample_world))) =
        ''Python Markdown Viewer - notes.md'' \<and>
      snd (save_file_as ''/readonly/notes.md'' (?init, sample_world)) = sample_world \<and>
      current_file_path (fst (open_file ''/readonly/notes.md'' (?init, sample_world))) = None \<and>
      window_title (fst (open_file ''/readonly/notes.md'' (?init, sample_world))) =
        ''Python Markdown Viewer''"
    by simp
  from G g
  have 2: "current_file_path (fst (open_file ''/home/user/notes.md'' (?init, sample_world))) =
      Some ''/home/user/notes.md''"
    by simp
  from 1 2 show ?thesis by blast
qed

section \<open>PDF export\<close>

text \<open>
  C7, as stated, fails: the success report is not unconditional once a path is chosen.
  When the call of \<^verbatim>\<open>printToPdf\<close> itself raises, the \<^verbatim>\<open>except\<close> branch reports failure and
  no success message is shown.
\<close>

theorem pdf_success_not_unconditional:
  "trace (export_to_pdf ''/home/user/out.pdf'' True (viewer_init sample_platform)) =
     trace (viewer_init sample_platform) @
       [StatusMessage ''PDF export failed.'', Critical ''Error'' ''Could not export PDF.''] \<and>
   Information ''Success'' ''PDF successfully exported to /home/user/out.pdf''
     \<notin> set (trace (export_to_pdf ''/home/user/out.pdf'' True (viewer_init sample_platform)))"
proof -
  have i: "trace (viewer_init sample_platform) =
      [GetStyleDefs ''default'' ''.codehilite'', GetStyleDefs ''monokai'' ''.codehilite'',
       UpdatePreview 0]"
    by (simp add: viewer_defs)
  have "trace (export_to_pdf ''/home/user/out.pdf'' True (viewer_init sample_platform)) =
     trace (viewer_init sample_platform) @
       [StatusMessage ''PDF export failed.'', Critical ''Error'' ''Could not export PDF.'']"
    by (simp add: export_to_pdf_def handle_pdf_creation_def status_message_def emit_def)
  then show ?thesis
    by (simp add: i)
qed

text \<open>
  C7, amended. Once a path is chosen and the call of \<^verbatim>\<open>printToPdf\<close> returns without
  raising, \<^verbatim>\<open>handle_pdf_creation(True)\<close> reports success at once, while the print job is
  still pending: the job's completion comes later in the trace, and the report is the same
  whether the job then succeeds or fails. Only when the call itself raises is failure
  reported, and no job is pending.
\<close>

theorem pdf_success_reported_before_completion:
  "(file_path \<noteq> [] \<and> \<not> raises \<longrightarrow>
      trace (export_to_pdf file_path raises st) =
        trace st @
          [PrintToPdf file_path, StatusMessage (''Exported to '' @ file_path),
           Information ''Success'' (''PDF successfully exported to '' @ file_path)] \<and>
      pending_pdf (export_to_pdf file_path raises st) = pending_pdf st @ [file_path] \<and>
      (pending_pdf st = [] \<longrightarrow>
         trace (pdf_printing_finished ok (export_to_pdf file_path raises st)) =
           trace st @
             [PrintToPdf file_path, StatusMessage (''Exported to '' @ file_path),
              Information ''Success'' (''PDF successfully exported to '' @ file_path),
              PdfPrintingFinished file_path ok])) \<and>
   (file_path \<noteq> [] \<and> raises \<longrightarrow>
      trace (export_to_pdf file_path raises st) =
        trace st @
          [StatusMessage ''PDF export failed.'', Critical ''Error'' ''Could not export PDF.''] \<and>
      pending_pdf (export_to_pdf file_path raises st) = pending_pdf st)"
  by (simp add: export_to_pdf_def handle_pdf_creation_def print_to_pdf_def
      pdf_printing_finished_def status_message_def emit_def)


theorem pdf_success_reported_before_completion_witness:
  "trace (pdf_printing_finished False
      (export_to_pdf ''/home/user/out.pdf'' False (viewer_init sample_platform))) =
     trace (viewer_init sample_platform) @
     [PrintToPdf ''/home/user/out.pdf'', StatusMessage ''Exported to /home/user/out.pdf'',
      Information ''Success'' ''PDF successfully exported to /home/user/out.pdf'',
      PdfPrintingFinished ''/home/user/out.pdf'' False] \<and>
   pending_pdf (export_to_pdf ''/home/user/out.pdf'' False (viewer_init sample_platform)) =
     [''/home/user/out.pdf''] \<and>
   trace (export_to_pdf ''/home/user/out.pdf'' True (viewer_init sample_platform)) =
     trace (viewer_init sample_platform) @
     [StatusMessage ''PDF export failed.'', Critical ''Error'' ''Could not export PDF.'']"
proof -
  let ?init = "viewer_init sample_platform"
  have b: "pending_pdf ?init = []"
    by (simp add: viewer_defs)
  note F = pdf_success_reported_before_completion
    [of "''/home/user/out.pdf''" False ?init False]
  note R = pdf_success_reported_before_completion
    [of "''/home/user/out.pdf''" True ?init False]
  from F b have 1: "trace (pdf_printing_finished False
      (export_to_pdf ''/home/user/out.pdf'' False ?init)) =
     trace ?init @
     [PrintToPdf ''/home/user/out.pdf'', StatusMessage ''Exported to /home/user/out.pdf'',
      Information ''Success'' ''PDF successfully exported to /home/user/out.pdf'',
      PdfPrintingFinished ''/home/user/out.pdf'' False] \<and>
     pending_pdf (export_to_pdf ''/home/user/out.pdf'' False ?init) =
     [''/home/user/out.pdf'']"
    by simp
  from R have 2: "trace (export_to_pdf ''/home/user/out.pdf'' True ?init) =
     trace ?init @
     [StatusMessage ''PDF export failed.'', Critical ''Error'' ''Could not export PDF.'']"
    by simp
  from 1 2 show ?thesis by blast
qed

section \<open>Font size\<close>

lemma adjust_font_size_editor:
  "editor_point_size (adjust_font_size delta st) =
     (if editor_point_size st + delta div 2 > 4 then editor_point_size st + delta div 2
      else editor_point_size st)"
  by (simp add: adjust_font_size_def emit_def Let_def)

lemma adjust_font_size_ai_input:
  "ai_input_point_size (adjust_font_size delta st) =
     (if editor_point_size st + delta div 2 > 4 then editor_point_size st + delta div 2
      else ai_input_point_size st)"
  by (simp add: adjust_font_size_def emit_def Let_def)

lemma adjust_font_size_ai_output:
  "ai_output_point_size (adjust_font_size delta st) =
     (if editor_point_size st + delta div 2 > 4 then editor_point_size st + delta div 2
      else ai_output_point_size st)"
  by (simp add: adjust_font_size_def emit_def Let_def)

lemma sizes_above_4_adjust:
  "sizes_above_4 st \<Longrightarrow> sizes_above_4 (adjust_font_size delta st)"
  by (simp add: sizes_above_4_def adjust_font_size_editor adjust_font_size_ai_input
      adjust_font_size_ai_output)

lemma sizes_above_4_fold:
  "sizes_above_4 st \<Longrightarrow> sizes_above_4 (fold adjust_font_size deltas st)"
  by (induction deltas arbitrary: st) (simp_all add: sizes_above_4_adjust)

text \<open>
  C10. \<^verbatim>\<open>adjust_font_size\<close> changes the point size of the editor and of the two AI panes
  only when the new size, the editor's size plus \<open>delta // 2\<close>, is above 4, and then sets
  all three to it. So sizes that start above 4 stay above 4 under any sequence of calls.
\<close>

theorem adjust_font_size_keeps_above_4:
  "(editor_point_size st + delta div 2 \<le> 4 \<longrightarrow>
      editor_point_size (adjust_font_size delta st) = editor_point_size st \<and>
      ai_input_point_size (adjust_font_size delta st) = ai_input_point_size st \<and>
      ai_output_point_size (adjust_font_size delta st) = ai_output_point_size st) \<and>
   (4 < editor_point_size st + delta div 2 \<longrightarrow>
      editor_point_size (adjust_font_size delta st) = editor_point_size st + delta div 2 \<and>
      ai_input_point_size (adjust_font_size delta st) = editor_point_size st + delta div 2 \<and>
      ai_output_point_size (adjust_font_size delta st) = editor_point_size st + delta div 2) \<and>
   (sizes_above_4 st \<longrightarrow> sizes_above_4 (fold adjust_font_size deltas st))"
  by (simp add: adjust_font_size_editor adjust_font_size_ai_input adjust_font_size_ai_output
      sizes_above_4_fold)

theorem adjust_font_size_keeps_above_4_witness:
  "editor_point_size (adjust_font_size (- 12) (viewer_init sample_platform)) = 10 \<and>
   ai_input_point_size (adjust_font_size (- 12) (viewer_init sample_platform)) = 10 \<and>
   ai_output_point_size (adjust_font_size (- 12) (viewer_init sample_platform)) = 10 \<and>
   editor_point_size (adjust_font_size (- 3) (viewer_init sample_platform)) = 8 \<and>
   ai_input_point_size (adjust_font_size (- 3) (viewer_init sample_platform)) = 8 \<and>
   ai_output_point_size (adjust_font_size (- 3) (viewer_init sample_platform)) = 8 \<and>
   sizes_above_4 (fold adjust_font_size [- 2, - 2, - 2, - 2, - 2, - 2, - 2, 2, - 9]
      (viewer_init sample_platform))"
proof -
  let ?init = "viewer_init sample_platform"
  have i: "editor_point_size ?init = 10" "ai_input_point_size ?init = 10"
    "ai_output_point_size ?init = 10"
    by (simp_all add: viewer_defs)
  then have a: "sizes_above_4 ?init"
    by (simp add: sizes_above_4_def)
  have d: "(- 12) div 2 = (- 6::int)" "(- 3) div 2 = (- 2::int)"
    by simp_all
  note S = adjust_font_size_keeps_above_4
    [of ?init "- 12" "[- 2, - 2, - 2, - 2, - 2, - 2, - 2, 2, - 9]"]
  note L = adjust_font_size_keeps_above_4 [of ?init "- 3" "[]"]
  from S i a d have 1:
    "editor_point_size (adjust_font_size (- 12) ?init) = 10 \<and>
     ai_input_point_size (adjust_font_size (- 12) ?init) = 10 \<and>
     ai_output_point_size (adjust_font_size (- 12) ?init) = 10 \<and>
     sizes_above_4 (fold adjust_font_size [- 2, - 2, - 2, - 2, - 2, - 2, - 2, 2, - 9] ?init)"
    by simp
  from L i d have 2:
    "editor_point_size (adjust_font_size (- 3) ?init) = 8 \<and>
     ai_input_point_size (adjust_font_size (- 3) ?init) = 8 \<and>
     ai_output_point_size (adjust_font_size (- 3) ?init) = 8"
    by simp
  from 1 2 show ?thesis by blast
qed

end
